theory Spec2Isabelle
  imports Main "HOL-Library.Word"
begin

unbundle bit_operations_syntax

section \<open>MiniOSGB: the binary scene-graph reader of miniosgb.h\<close>

text \<open>
  The development embeds \<^verbatim>\<open>miniosgb::details::Reader\<close> and \<^verbatim>\<open>miniosgb::Data::read\<close>
  (include/miniosgb.h). Conventions of the embedding:
  \<^item> the input is the list of the \<^verbatim>\<open>_length\<close> bytes at \<^verbatim>\<open>_buffer\<close>; a pointer into the buffer
    (\<^verbatim>\<open>_buffer + _pos\<close>) is its offset, \<^verbatim>\<open>nullptr\<close> is \<open>None\<close>;
  \<^item> \<^verbatim>\<open>unsigned int\<close> and \<^verbatim>\<open>int\<close> are 32 bits wide, \<^verbatim>\<open>long long\<close> and \<^verbatim>\<open>size_t\<close> 64 bits.
    Values decoded from the buffer are naturals below \<open>2 ^ 32\<close> (integers for the signed
    reads); the one product the source computes in \<^verbatim>\<open>unsigned int\<close> has its wrap-around
    written out. Cursor positions are naturals: a \<^verbatim>\<open>size_t\<close> position of a buffer that fits
    into memory stays far below \<open>2 ^ 64\<close>, because every skip is followed by a checked read;
  \<^item> \<^verbatim>\<open>float\<close> and \<^verbatim>\<open>double\<close> values are only copied, never computed with: they are kept as
    their bit patterns;
  \<^item> a \<^verbatim>\<open>throw Error(_pos, msg)\<close> is the result \<open>Inl (Error pos msg)\<close>, and every later
    statement is skipped, as the exception does;
  \<^item> a \<^verbatim>\<open>std::shared_ptr\<close> is an optional address into a store of objects
    (\<open>heap\<close>); \<^verbatim>\<open>std::make_shared\<close> appends a default-constructed object to the store.
\<close>

subsection \<open>Bytes, integers, strings\<close>

type_synonym byte = "8 word"
type_synonym float32 = nat
type_synonym float64 = nat

definition le_nat :: "byte list \<Rightarrow> nat" where
  "le_nat bs = foldr (\<lambda>b n. unat b + 256 * n) bs 0"

definition le_int :: "byte list \<Rightarrow> int" where
  "le_int bs = (let n = int (le_nat bs); m = 2 ^ (8 * length bs)
                in if 2 * n < m then n else n - m)"

definition to_char :: "byte \<Rightarrow> char" where
  "to_char b = char_of (unat b)"

definition digit_char :: "nat \<Rightarrow> char" where
  "digit_char d = ''0123456789'' ! d"

fun nat_to_string :: "nat \<Rightarrow> string" where
  "nat_to_string n =
     (if n < 10 then [digit_char n] else nat_to_string (n div 10) @ [digit_char (n mod 10)])"

text \<open>\<^verbatim>\<open>std::to_string\<close> on a signed value.\<close>

definition to_string :: "int \<Rightarrow> string" where
  "to_string i = (if i < 0 then CHR ''-'' # nat_to_string (nat (- i)) else nat_to_string (nat i))"

subsection \<open>The object model\<close>

type_synonym addr = nat
type_synonym ref = "addr option"

text \<open>The dynamic type of an object: the concrete classes the reader instantiates.\<close>

datatype cls =
    PagedLOD | Group | Geode | Geometry | StateSet | Material | Texture2D
  | DefaultUserDataContainer | DrawElementsUInt | PrimitiveSet
  | Vec2Array | Vec3Array | Vec4Array | Image

definition is_Node :: "cls \<Rightarrow> bool" where
  "is_Node c = (c = PagedLOD \<or> c = Group \<or> c = Geode \<or> c = Geometry)"

definition is_Drawable :: "cls \<Rightarrow> bool" where
  "is_Drawable c = (c = Geometry)"

definition is_StateSet :: "cls \<Rightarrow> bool" where
  "is_StateSet c = (c = StateSet)"

definition is_StateAttribute :: "cls \<Rightarrow> bool" where
  "is_StateAttribute c = (c = Material \<or> c = Texture2D)"

definition is_PrimitiveSet :: "cls \<Rightarrow> bool" where
  "is_PrimitiveSet c = (c = PrimitiveSet \<or> c = DrawElementsUInt)"

definition is_Array :: "cls \<Rightarrow> bool" where
  "is_Array c = (c = Vec2Array \<or> c = Vec3Array \<or> c = Vec4Array)"

record Range =
  range_min :: float32
  range_max :: float32

record RangeData =
  filename :: string
  priorityOffset :: float32
  priorityScale :: float32

record 'a Property =
  frontAndBack :: bool
  front_v :: 'a
  back_v :: 'a

type_synonym vec4f = "float32 \<times> float32 \<times> float32 \<times> float32"
type_synonym vec3d = "float64 \<times> float64 \<times> float64"

record LOD_fields =
  centerMode :: int
  userDefinedCenter :: vec3d
  userDefinedRadius :: float64
  rangeList :: "Range list"

record Geometry_fields =
  primitives :: "ref list"
  vertexData :: ref
  normalData :: ref
  colorData :: ref
  secondaryColorData :: ref
  fogCoordData :: ref
  texCoordDataList :: "ref list"

record PrimitiveSet_fields =
  mode :: nat
  indexData :: "nat option"
  indexCount :: nat

record StateSet_fields =
  modes :: "(nat \<times> nat) list"
  attributes :: "(addr \<times> nat) list"
  textureModesList :: "(nat \<times> nat) list list"
  textureAttributesList :: "(addr \<times> nat) list list"
  renderingHint :: int

record Material_fields =
  ambient :: "vec4f Property"
  diffuse :: "vec4f Property"
  specular :: "vec4f Property"
  emission :: "vec4f Property"
  shininess :: "float32 Property"

record Texture_fields =
  wrapS :: int
  wrapT :: int
  wrapR :: int

record Image_fields =
  data :: "nat option"
  dataLength :: nat

record Array_fields =
  arrayType :: int
  elementSize :: nat
  elementCount :: nat
  elementData :: "nat option"
  binding :: int
  normalize_flag :: bool

text \<open>
  One record holds the members of every layer of the class hierarchy; an object only ever
  has the members of the layers of its class \<open>cls\<close> written, the others keep their defaults.
\<close>

record obj =
  cls :: cls
  uniqueId :: nat
  stateSet :: ref
  children :: "ref list"
  lod :: LOD_fields
  rangeDataList :: "RangeData list"
  drawables :: "ref list"
  geometry :: Geometry_fields
  primitiveSet :: PrimitiveSet_fields
  stateSetData :: StateSet_fields
  material :: Material_fields
  texture :: Texture_fields
  image_ref :: ref
  imageData :: Image_fields
  array :: Array_fields

definition zero4 :: vec4f where
  "zero4 = (0, 0, 0, 0)"

definition default_Property :: "'a \<Rightarrow> 'a Property" where
  "default_Property z = \<lparr>frontAndBack = False, front_v = z, back_v = z\<rparr>"

text \<open>
  The array constructors fix \<^verbatim>\<open>arrayType\<close> and \<^verbatim>\<open>elementSize\<close>:
  \<^verbatim>\<open>Vec2Array() : Array(ArrayType::Vec2f, sizeof(Vec2f))\<close> and so on.
\<close>

definition default_Array :: "cls \<Rightarrow> Array_fields" where
  "default_Array c =
     \<lparr>arrayType = (if c = Vec2Array then 27 else if c = Vec3Array then 28
                    else if c = Vec4Array then 29 else 0),
      elementSize = (if c = Vec2Array then 8 else if c = Vec3Array then 12
                    else if c = Vec4Array then 16 else 0),
      elementCount = 0, elementData = None, binding = 0, normalize_flag = False\<rparr>"

definition default_obj :: "cls \<Rightarrow> obj" where
  "default_obj c =
     \<lparr>cls = c, uniqueId = 0, stateSet = None, children = [],
      lod = \<lparr>centerMode = 0, userDefinedCenter = (0, 0, 0), userDefinedRadius = 0,
             rangeList = []\<rparr>,
      rangeDataList = [], drawables = [],
      geometry = \<lparr>primitives = [], vertexData = None, normalData = None, colorData = None,
                  secondaryColorData = None, fogCoordData = None, texCoordDataList = []\<rparr>,
      primitiveSet = \<lparr>mode = 0, indexData = None, indexCount = 0\<rparr>,
      stateSetData = \<lparr>modes = [], attributes = [], textureModesList = [],
                      textureAttributesList = [], renderingHint = 0\<rparr>,
      material = \<lparr>ambient = default_Property zero4, diffuse = default_Property zero4,
                  specular = default_Property zero4, emission = default_Property zero4,
                  shininess = default_Property 0\<rparr>,
      texture = \<lparr>wrapS = 0x812F, wrapT = 0x812F, wrapR = 0x812F\<rparr>,
      image_ref = None,
      imageData = \<lparr>data = None, dataLength = 0\<rparr>,
      array = default_Array c\<rparr>"

text \<open>\<^verbatim>\<open>std::vector::resize\<close>: cut, or fill up with value-initialised elements.\<close>

definition resize :: "nat \<Rightarrow> 'a \<Rightarrow> 'a list \<Rightarrow> 'a list" where
  "resize n d xs = take n xs @ replicate (n - length xs) d"

definition default_RangeData :: RangeData where
  "default_RangeData = \<lparr>filename = [], priorityOffset = 0, priorityScale = 0\<rparr>"

definition default_Range :: Range where
  "default_Range = \<lparr>range_min = 0, range_max = 0\<rparr>"

subsection \<open>The reader state and its exceptions\<close>

datatype error = Error (offset: nat) (message: string) | OutOfFuel

record reader =
  buffer :: "byte list"
  pos :: nat
  version :: nat
  useBinaryBrackets :: bool
  objects :: "nat \<rightharpoonup> addr"
  images :: "nat \<rightharpoonup> addr"
  arrays :: "nat \<rightharpoonup> addr"
  heap :: "obj list"

type_synonym 'a rd = "reader \<Rightarrow> error + ('a \<times> reader)"

definition ret :: "'a \<Rightarrow> 'a rd" where
  "ret x = (\<lambda>r. Inr (x, r))"

definition bnd :: "'a rd \<Rightarrow> ('a \<Rightarrow> 'b rd) \<Rightarrow> 'b rd" where
  "bnd f g = (\<lambda>r. case f r of Inl e \<Rightarrow> Inl e | Inr (x, r') \<Rightarrow> g x r')"

definition thn :: "'a rd \<Rightarrow> 'b rd \<Rightarrow> 'b rd" where
  "thn f g = bnd f (\<lambda>_. g)"

definition ignore :: "'a rd \<Rightarrow> unit rd" where
  "ignore f = bnd f (\<lambda>_. ret ())"

definition throw :: "string \<Rightarrow> 'a rd" where
  "throw msg = (\<lambda>r. Inl (Error (pos r) msg))"

definition gets :: "(reader \<Rightarrow> 'a) \<Rightarrow> 'a rd" where
  "gets f = (\<lambda>r. Inr (f r, r))"

definition modify :: "(reader \<Rightarrow> reader) \<Rightarrow> unit rd" where
  "modify f = (\<lambda>r. Inr ((), f r))"

definition if_then :: "bool \<Rightarrow> unit rd \<Rightarrow> unit rd" where
  "if_then b f = (if b then f else ret ())"

primrec seq :: "unit rd list \<Rightarrow> unit rd" where
  "seq [] = ret ()"
| "seq (f # fs) = thn f (seq fs)"

text \<open>
  \<^verbatim>\<open>for (unsigned int i = 0; i < size; ++i) body(i)\<close>, counted down on the iterations left;
  \<open>for_acc\<close> is the loop whose body updates the object under construction.
\<close>

primrec for_from :: "nat \<Rightarrow> nat \<Rightarrow> (nat \<Rightarrow> unit rd) \<Rightarrow> unit rd" where
  "for_from 0 i body = ret ()"
| "for_from (Suc k) i body = thn (body i) (for_from k (Suc i) body)"

definition for_loop :: "nat \<Rightarrow> (nat \<Rightarrow> unit rd) \<Rightarrow> unit rd" where
  "for_loop n body = for_from n 0 body"

primrec for_acc_from :: "nat \<Rightarrow> nat \<Rightarrow> (nat \<Rightarrow> 'a \<Rightarrow> 'a rd) \<Rightarrow> 'a \<Rightarrow> 'a rd" where
  "for_acc_from 0 i body x = ret x"
| "for_acc_from (Suc k) i body x = bnd (body i x) (for_acc_from k (Suc i) body)"

definition for_acc :: "nat \<Rightarrow> (nat \<Rightarrow> 'a \<Rightarrow> 'a rd) \<Rightarrow> 'a \<Rightarrow> 'a rd" where
  "for_acc n body x = for_acc_from n 0 body x"

subsection \<open>Primitive reads\<close>

text \<open>
  \<^verbatim>\<open>read<T>()\<close>, \<^verbatim>\<open>read(T*)\<close> and \<^verbatim>\<open>read(T*, count)\<close>: one bounds check for all \<open>n\<close> bytes
  (\<open>n\<close> is \<^verbatim>\<open>sizeof(T)\<close>, or \<^verbatim>\<open>sizeof(T) * count\<close>), then the bytes at the cursor.
\<close>

definition read_bytes :: "nat \<Rightarrow> byte list rd" where
  "read_bytes n = (\<lambda>r.
     if pos r + n > length (buffer r) then Inl (Error (pos r) ''read beyond data length'')
     else Inr (take n (drop (pos r) (buffer r)), r\<lparr>pos := pos r + n\<rparr>))"

definition read_uint :: "nat rd" where
  "read_uint = bnd (read_bytes 4) (\<lambda>bs. ret (le_nat bs))"

definition read_int :: "int rd" where
  "read_int = bnd (read_bytes 4) (\<lambda>bs. ret (le_int bs))"

definition read_longlong :: "int rd" where
  "read_longlong = bnd (read_bytes 8) (\<lambda>bs. ret (le_int bs))"

definition read_float :: "float32 rd" where
  "read_float = bnd (read_bytes 4) (\<lambda>bs. ret (le_nat bs))"

definition read_double :: "float64 rd" where
  "read_double = bnd (read_bytes 8) (\<lambda>bs. ret (le_nat bs))"

definition read_Vec3d :: "vec3d rd" where
  "read_Vec3d = bnd (read_bytes 24) (\<lambda>bs.
     ret (le_nat (take 8 bs), le_nat (take 8 (drop 8 bs)), le_nat (drop 16 bs)))"

definition read_Vec4f :: "vec4f rd" where
  "read_Vec4f = bnd (read_bytes 16) (\<lambda>bs.
     ret (le_nat (take 4 bs), le_nat (take 4 (drop 4 bs)), le_nat (take 4 (drop 8 bs)),
          le_nat (drop 12 bs)))"

text \<open>
  \<^verbatim>\<open>read<bool>()\<close> loads the byte at the cursor as a \<^verbatim>\<open>bool\<close>
  (\<^verbatim>\<open>const auto value = *(bool*)(_buffer + _pos)\<close>) and makes its test,
  \<^verbatim>\<open>(value != true) && (value != false)\<close>, on that \<^verbatim>\<open>bool\<close>, not on the byte. For the bytes 0
  and 1 the load is defined and gives false and true. For every other byte C++ leaves it
  undefined; \<open>load_bool\<close> takes the reading of the optimised (release) build on the usual
  targets, where the byte is kept in a register and counts as true in a condition whenever
  it is not zero. The test is written as the source has it; no \<^verbatim>\<open>bool\<close> fails it.
\<close>

definition load_bool :: "byte \<Rightarrow> bool" where
  "load_bool v = (v \<noteq> 0)"

definition read_bool :: "bool rd" where
  "read_bool = (\<lambda>r.
     if pos r + 1 > length (buffer r) then Inl (Error (pos r) ''read beyond data length'')
     else let v = load_bool (buffer r ! pos r) in
       if v \<noteq> True \<and> v \<noteq> False then Inl (Error (pos r) ''invalid bool value'')
       else Inr (v, r\<lparr>pos := pos r + 1\<rparr>))"

definition read_string :: "string rd" where
  "read_string = bnd read_int (\<lambda>size.
     if size < 0 then throw ''invalid string length''
     else bnd (read_bytes (nat size)) (\<lambda>bs. ret (map to_char bs)))"

definition ended :: "reader \<Rightarrow> bool" where
  "ended r = (pos r = length (buffer r))"

subsection \<open>Brackets and the header\<close>

definition ReadBeginBracket :: "unit rd" where
  "ReadBeginBracket = (\<lambda>r.
     if useBinaryBrackets r then
       (if version r > 148 then Inr ((), r\<lparr>pos := pos r + 8\<rparr>)
        else Inr ((), r\<lparr>pos := pos r + 4\<rparr>))
     else Inr ((), r))"

definition ReadEndBracket :: "unit rd" where
  "ReadEndBracket = ret ()"

definition readHeader :: "unit rd" where
  "readHeader =
     bnd read_longlong (\<lambda>magic.
     if magic \<noteq> 0x1AFB45456C910EA1 then throw ''invalid data magic''
     else bnd read_uint (\<lambda>type.
     if type = 0 then throw (''invalid data type: '' @ nat_to_string type)
     else bnd read_uint (\<lambda>v.
     thn (modify (\<lambda>r. r\<lparr>version := v\<rparr>))
     (bnd read_uint (\<lambda>attrs.
     if 0 < attrs AND 1 \<or> 0 < attrs AND 2
     then throw (''unsupported attribute: '' @ nat_to_string type)
     else thn (modify (\<lambda>r. r\<lparr>useBinaryBrackets := (attrs AND 4 \<noteq> 0)\<rparr>))
     (bnd read_string (\<lambda>compressorName.
     if compressorName \<noteq> ''0'' then throw (''unsupported compressor: '' @ compressorName)
     else ret ())))))))"

subsection \<open>Objects under construction\<close>

text \<open>
  \<^verbatim>\<open>std::make_shared<T>()\<close> returns the address of a new cell holding a default object of
  class \<open>c\<close>. A field reader \<^verbatim>\<open>readObjectFields<L>(T& obj)\<close> receives the object by
  reference. While an object is under construction nothing else reads or writes its
  members (the dispatcher and the casts look at dynamic types only), so the object's value
  is passed along the chain of its field readers and written into its cell when the chain
  is done (\<open>construct\<close>).
\<close>

definition make_shared :: "cls \<Rightarrow> addr rd" where
  "make_shared c = (\<lambda>r. Inr (length (heap r), r\<lparr>heap := heap r @ [default_obj c]\<rparr>))"

definition update_obj :: "addr \<Rightarrow> (obj \<Rightarrow> obj) \<Rightarrow> unit rd" where
  "update_obj a f = modify (\<lambda>r. r\<lparr>heap := (heap r)[a := f (heap r ! a)]\<rparr>)"

primrec chain :: "('a \<Rightarrow> 'a rd) list \<Rightarrow> 'a \<Rightarrow> 'a rd" where
  "chain [] x = ret x"
| "chain (f # fs) x = bnd (f x) (chain fs)"

definition construct :: "cls \<Rightarrow> (obj \<Rightarrow> obj rd) list \<Rightarrow> ref rd" where
  "construct c layers =
     bnd (make_shared c) (\<lambda>a.
     bnd (chain layers (default_obj c)) (\<lambda>ob.
     thn (update_obj a (\<lambda>_. ob))
     (ret (Some a))))"

text \<open>\<^verbatim>\<open>std::dynamic_pointer_cast<T>\<close>: null unless the object's class derives from T.\<close>

definition dynamic_pointer_cast :: "(cls \<Rightarrow> bool) \<Rightarrow> ref \<Rightarrow> ref rd" where
  "dynamic_pointer_cast is_T p = gets (\<lambda>r.
     case p of None \<Rightarrow> None
     | Some a \<Rightarrow> if is_T (cls (heap r ! a)) then Some a else None)"

text \<open>\<^verbatim>\<open>_pos += n\<close>: no check.\<close>

definition skip :: "nat \<Rightarrow> unit rd" where
  "skip n = modify (\<lambda>r. r\<lparr>pos := pos r + n\<rparr>)"

text \<open>\<^verbatim>\<open>if (read<bool>()) { ... }\<close>, without and with an effect on the object.\<close>

definition opt :: "unit rd \<Rightarrow> unit rd" where
  "opt f = bnd read_bool (\<lambda>b. if_then b f)"

definition opt_block :: "('a \<Rightarrow> 'a rd) \<Rightarrow> 'a \<Rightarrow> 'a rd" where
  "opt_block f x = bnd read_bool (\<lambda>b. if b then f x else ret x)"

subsection \<open>Field readers\<close>

text \<open>
  The field readers that read nested objects take the dispatcher \<^verbatim>\<open>readObject\<close> as their
  first argument; the recursion is closed in \<open>readObject\<close> below.
\<close>

definition readObjectIfTrue :: "ref rd \<Rightarrow> ref rd" where
  "readObjectIfTrue readObject = bnd read_bool (\<lambda>b. if b then readObject else ret None)"

definition readObjectFields_Object :: "ref rd \<Rightarrow> obj \<Rightarrow> obj rd" where
  "readObjectFields_Object readObject ob =
     thn (ignore read_string)
     (thn (ignore read_uint)
     (bnd (gets version) (\<lambda>v.
     thn (if v < 77 then ignore readObject else ignore (readObjectIfTrue readObject))
     (ret ob))))"

definition readObjectFields_Node :: "ref rd \<Rightarrow> obj \<Rightarrow> obj rd" where
  "readObjectFields_Node readObject ob =
     thn (opt (seq [ReadBeginBracket, ignore read_double, ignore read_double,
                    ignore read_double, ignore read_float, ReadEndBracket]))
     (thn (seq [ignore (readObjectIfTrue readObject), ignore (readObjectIfTrue readObject),
                ignore (readObjectIfTrue readObject), ignore (readObjectIfTrue readObject),
                ignore read_bool, ignore read_uint])
     (bnd (gets version) (\<lambda>v.
     thn (if_then (v < 77) (opt (bnd read_uint (\<lambda>n.
            seq [ReadBeginBracket, for_loop n (\<lambda>i. ignore read_string), ReadEndBracket]))))
     (bnd (readObjectIfTrue readObject) (\<lambda>p.
     bnd (dynamic_pointer_cast is_StateSet p) (\<lambda>s.
     ret (ob\<lparr>stateSet := s\<rparr>)))))))"

text \<open>The block of the children, as it stands in the Group layer and in the PagedLOD layer.\<close>

definition read_Children :: "ref rd \<Rightarrow> obj \<Rightarrow> obj rd" where
  "read_Children readObject ob =
     bnd read_uint (\<lambda>n.
     thn ReadBeginBracket
     (bnd (for_acc n (\<lambda>i ob.
             bnd readObject (\<lambda>p.
             bnd (dynamic_pointer_cast is_Node p) (\<lambda>c.
             ret (ob\<lparr>children := (children ob)[i := c]\<rparr>))))
           (ob\<lparr>children := resize n None (children ob)\<rparr>)) (\<lambda>ob.
     thn ReadEndBracket (ret ob))))"

definition readObjectFields_Group :: "ref rd \<Rightarrow> obj \<Rightarrow> obj rd" where
  "readObjectFields_Group readObject ob = opt_block (read_Children readObject) ob"

definition readObjectFields_LOD :: "obj \<Rightarrow> obj rd" where
  "readObjectFields_LOD ob =
     bnd read_int (\<lambda>cm.
     bnd (opt_block (\<lambda>ob.
            bnd read_Vec3d (\<lambda>c.
            bnd read_double (\<lambda>rad.
            ret (ob\<lparr>lod := (lod ob)\<lparr>userDefinedCenter := c, userDefinedRadius := rad\<rparr>\<rparr>))))
          (ob\<lparr>lod := (lod ob)\<lparr>centerMode := cm\<rparr>\<rparr>)) (\<lambda>ob.
     thn (ignore read_uint)
     (opt_block (\<lambda>ob.
        bnd read_uint (\<lambda>n.
        thn ReadBeginBracket
        (bnd (for_acc n (\<lambda>i ob.
                bnd read_float (\<lambda>mn.
                bnd read_float (\<lambda>mx.
                ret (ob\<lparr>lod := (lod ob)\<lparr>rangeList :=
                       (rangeList (lod ob))[i := \<lparr>range_min = mn, range_max = mx\<rparr>]\<rparr>\<rparr>))))
              (ob\<lparr>lod := (lod ob)\<lparr>rangeList :=
                 resize n default_Range (rangeList (lod ob))\<rparr>\<rparr>)) (\<lambda>ob.
        thn ReadEndBracket (ret ob)))))
      ob)))"

text \<open>
  The RangeDataList block of the PagedLOD layer. The indices \<open>i\<close> of both loops are
  below the length of the list: it has \<open>fsize\<close> elements after the first resize, and is
  grown to \<open>psize\<close> when that is more.
\<close>

definition read_RangeDataList :: "obj \<Rightarrow> obj rd" where
  "read_RangeDataList ob =
     bnd read_uint (\<lambda>fsize.
     thn ReadBeginBracket
     (bnd (for_acc fsize (\<lambda>i ob.
             bnd read_string (\<lambda>s.
             ret (ob\<lparr>rangeDataList :=
                    (rangeDataList ob)[i := (rangeDataList ob ! i)\<lparr>filename := s\<rparr>]\<rparr>)))
           (ob\<lparr>rangeDataList := resize fsize default_RangeData (rangeDataList ob)\<rparr>)) (\<lambda>ob.
     thn ReadEndBracket
     (bnd read_uint (\<lambda>psize.
     thn ReadBeginBracket
     (bnd (for_acc psize (\<lambda>i ob.
             bnd read_float (\<lambda>po.
             bnd read_float (\<lambda>ps.
             ret (ob\<lparr>rangeDataList :=
                    (rangeDataList ob)[i := (rangeDataList ob ! i)
                       \<lparr>priorityOffset := po, priorityScale := ps\<rparr>]\<rparr>))))
           (if psize > fsize
            then ob\<lparr>rangeDataList := resize psize default_RangeData (rangeDataList ob)\<rparr>
            else ob)) (\<lambda>ob.
     thn ReadEndBracket (ret ob))))))))"

definition readObjectFields_PagedLOD :: "ref rd \<Rightarrow> obj \<Rightarrow> obj rd" where
  "readObjectFields_PagedLOD readObject ob =
     thn (opt (bnd read_bool (\<lambda>hasDatabasePath. if_then hasDatabasePath (ignore read_string))))
     (bnd (gets version) (\<lambda>v.
     thn (if_then (v < 70) (ignore read_uint))
     (thn (ignore read_uint)
     (thn (ignore read_bool)
     (bnd (opt_block read_RangeDataList ob) (\<lambda>ob.
     opt_block (read_Children readObject) ob))))))"

definition readObjectFields_Geode :: "ref rd \<Rightarrow> obj \<Rightarrow> obj rd" where
  "readObjectFields_Geode readObject ob =
     opt_block (\<lambda>ob.
       bnd read_uint (\<lambda>n.
       thn ReadBeginBracket
       (bnd (for_acc n (\<lambda>i ob.
               bnd readObject (\<lambda>p.
               bnd (dynamic_pointer_cast is_Drawable p) (\<lambda>d.
               ret (ob\<lparr>drawables := (drawables ob)[i := d]\<rparr>))))
             (ob\<lparr>drawables := resize n None (drawables ob)\<rparr>)) (\<lambda>ob.
       thn ReadEndBracket (ret ob)))))
     ob"

definition readObjectFields_Drawable :: "ref rd \<Rightarrow> obj \<Rightarrow> obj rd" where
  "readObjectFields_Drawable readObject ob =
     bnd (readObjectIfTrue readObject) (\<lambda>p.
     bnd (dynamic_pointer_cast is_StateSet p) (\<lambda>s.
     thn (seq [opt (ignore (read_bytes (8 * 6))),
               ignore (readObjectIfTrue readObject),
               ignore (readObjectIfTrue readObject),
               ignore read_bool,
               ignore read_bool,
               ignore read_bool,
               ignore (readObjectIfTrue readObject),
               ignore (readObjectIfTrue readObject),
               ignore (readObjectIfTrue readObject),
               ignore (readObjectIfTrue readObject)])
     (ret (ob\<lparr>stateSet := s\<rparr>))))"

definition readObjectFields_PrimitiveSet :: "obj \<Rightarrow> obj rd" where
  "readObjectFields_PrimitiveSet ob =
     thn (ignore read_int)
     (bnd read_uint (\<lambda>m.
     bnd read_uint (\<lambda>n.
     bnd (gets pos) (\<lambda>p.
     ret (ob\<lparr>primitiveSet := \<lparr>mode = m, indexData = Some p, indexCount = n\<rparr>\<rparr>)))))"

definition readObjectFields_DrawElementsUInt :: "obj \<Rightarrow> obj rd" where
  "readObjectFields_DrawElementsUInt ob =
     thn (skip (indexCount (primitiveSet ob) * 4)) (ret ob)"

subsection \<open>Inline arrays and images\<close>

text \<open>
  \<^verbatim>\<open>ReadArray\<close>: the new array is entered into \<^verbatim>\<open>_arrays\<close> before its payload is read;
  \<open>ReadArray_payload\<close> is the rest of the function from there. The skip
  \<^verbatim>\<open>_pos += elementCount * arr->elementSize\<close> multiplies two \<^verbatim>\<open>unsigned int\<close>s: the product is
  taken modulo \<open>2 ^ 32\<close>.
\<close>

definition ReadArray_payload :: "addr \<Rightarrow> ref rd" where
  "ReadArray_payload arr =
     bnd read_uint (\<lambda>n.
     bnd (gets pos) (\<lambda>p.
     thn (update_obj arr (\<lambda>ob. ob\<lparr>array := (array ob)
            \<lparr>elementCount := n,
             elementData := (if n > 0 then Some p else elementData (array ob))\<rparr>\<rparr>))
     (bnd (gets (\<lambda>r. elementSize (array (heap r ! arr)))) (\<lambda>esize.
     thn (skip ((n * esize) mod 2 ^ 32))
     (bnd read_bool (\<lambda>hasIndices.
     if hasIndices then throw ''unsupported feature: array with indices''
     else
       bnd read_int (\<lambda>b.
       bnd read_uint (\<lambda>nrm.
       thn (update_obj arr (\<lambda>ob. ob\<lparr>array := (array ob)
              \<lparr>binding := b, normalize_flag := (nrm \<noteq> 0)\<rparr>\<rparr>))
       (ret (Some arr))))))))))"

definition ReadArray :: "ref rd" where
  "ReadArray =
     bnd read_bool (\<lambda>hasArray.
     if hasArray then
       bnd read_uint (\<lambda>uid.
       bnd (gets arrays) (\<lambda>registry.
       case registry uid of
         Some a \<Rightarrow> ret (Some a)
       | None \<Rightarrow>
           bnd read_int (\<lambda>type.
           bnd (if type = 15 then make_shared Vec2Array
                else if type = 16 then make_shared Vec3Array
                else if type = 17 then make_shared Vec4Array
                else throw (''unsupported array type: '' @ to_string type)) (\<lambda>arr.
           thn (update_obj arr (\<lambda>ob. ob\<lparr>uniqueId := uid\<rparr>))
           (thn (modify (\<lambda>r. r\<lparr>arrays := (arrays r)(uid \<mapsto> arr)\<rparr>))
           (ReadArray_payload arr))))))
     else ret None)"

text \<open>
  \<^verbatim>\<open>readImage\<close>: the new image is entered into \<^verbatim>\<open>_images\<close> before its payload is read and
  before the Object layer runs on it; \<open>readImage_payload\<close> is the rest of the function
  from there.
\<close>

definition readImage_payload :: "ref rd \<Rightarrow> addr \<Rightarrow> ref rd" where
  "readImage_payload readObject img =
     thn (ignore read_string)
     (thn (ignore read_uint)
     (bnd read_uint (\<lambda>decision.
     thn (if decision = 1 then
            bnd read_uint (\<lambda>n.
            bnd (gets pos) (\<lambda>p.
            thn (update_obj img (\<lambda>ob. ob\<lparr>imageData := \<lparr>data = Some p, dataLength = n\<rparr>\<rparr>))
            (skip n)))
          else throw (''invalid image decision: '' @ nat_to_string decision))
     (bnd (gets (\<lambda>r. heap r ! img)) (\<lambda>ob.
     thn (readObjectFields_Object readObject ob)
     (ret (Some img)))))))"

definition readImage :: "ref rd \<Rightarrow> ref rd" where
  "readImage readObject =
     bnd read_bool (\<lambda>b.
     if b then
       bnd (gets version) (\<lambda>v.
       thn (if_then (v > 94) (ignore read_string))
       (bnd read_uint (\<lambda>uid.
       bnd (gets images) (\<lambda>registry.
       case registry uid of
         Some a \<Rightarrow> ret (Some a)
       | None \<Rightarrow>
           bnd (make_shared Image) (\<lambda>img.
           thn (update_obj img (\<lambda>ob. ob\<lparr>uniqueId := uid\<rparr>))
           (thn (modify (\<lambda>r. r\<lparr>images := (images r)(uid \<mapsto> img)\<rparr>))
           (readImage_payload readObject img)))))))
     else ret None)"

subsection \<open>Field readers, continued\<close>

definition read_PrimitiveSets_legacy :: "nat \<Rightarrow> obj \<Rightarrow> obj rd" where
  "read_PrimitiveSets_legacy n ob =
     thn ReadBeginBracket
     (bnd (for_acc n (\<lambda>p ob.
             bnd (make_shared PrimitiveSet) (\<lambda>prim.
             thn (ignore read_uint)
             (bnd read_uint (\<lambda>m.
             thn (update_obj prim (\<lambda>x. x\<lparr>primitiveSet := (primitiveSet x)\<lparr>mode := m\<rparr>\<rparr>))
             (bnd read_uint (\<lambda>cnt.
             thn (update_obj prim (\<lambda>x. x\<lparr>primitiveSet :=
                    (primitiveSet x)\<lparr>indexCount := cnt\<rparr>\<rparr>))
             (thn (if_then (cnt > 0)
                    (bnd (gets pos) (\<lambda>q.
                     thn (update_obj prim (\<lambda>x. x\<lparr>primitiveSet :=
                            (primitiveSet x)\<lparr>indexData := Some q\<rparr>\<rparr>))
                     (skip (4 * cnt)))))
             (ret (ob\<lparr>geometry := (geometry ob)\<lparr>primitives :=
                    (primitives (geometry ob))[p := Some prim]\<rparr>\<rparr>)))))))))
           (ob\<lparr>geometry := (geometry ob)\<lparr>primitives :=
              resize n None (primitives (geometry ob))\<rparr>\<rparr>)) (\<lambda>ob.
     thn ReadEndBracket (ret ob)))"

definition read_PrimitiveSets :: "ref rd \<Rightarrow> nat \<Rightarrow> obj \<Rightarrow> obj rd" where
  "read_PrimitiveSets readObject n ob =
     for_acc n (\<lambda>p ob.
       bnd readObject (\<lambda>q.
       bnd (dynamic_pointer_cast is_PrimitiveSet q) (\<lambda>c.
       ret (ob\<lparr>geometry := (geometry ob)\<lparr>primitives :=
              (primitives (geometry ob))[p := c]\<rparr>\<rparr>))))
     (ob\<lparr>geometry := (geometry ob)\<lparr>primitives :=
        resize n None (primitives (geometry ob))\<rparr>\<rparr>)"

text \<open>\<^verbatim>\<open>if (read<bool>()) { ReadBeginBracket(); ReadArray(); ReadEndBracket(); }\<close>\<close>

definition read_discarded_array :: "unit rd" where
  "read_discarded_array = opt (seq [ReadBeginBracket, ignore ReadArray, ReadEndBracket])"

definition read_arrays_legacy :: "obj \<Rightarrow> obj rd" where
  "read_arrays_legacy ob =
     bnd (opt_block (\<lambda>ob.
            thn ReadBeginBracket
            (bnd ReadArray (\<lambda>a.
            thn ReadEndBracket
            (ret (ob\<lparr>geometry := (geometry ob)\<lparr>vertexData := a\<rparr>\<rparr>)))))
          ob) (\<lambda>ob.
     thn (seq [read_discarded_array, read_discarded_array, read_discarded_array,
               read_discarded_array])
     (bnd (opt_block (\<lambda>ob.
             bnd read_uint (\<lambda>n.
             thn ReadBeginBracket
             (bnd (for_acc n (\<lambda>i ob.
                     thn ReadBeginBracket
                     (bnd ReadArray (\<lambda>a.
                     thn ReadEndBracket
                     (ret (ob\<lparr>geometry := (geometry ob)\<lparr>texCoordDataList :=
                            (texCoordDataList (geometry ob))[i := a]\<rparr>\<rparr>)))))
                   (ob\<lparr>geometry := (geometry ob)\<lparr>texCoordDataList :=
                      resize n None (texCoordDataList (geometry ob))\<rparr>\<rparr>)) (\<lambda>ob.
             thn ReadEndBracket (ret ob)))))
           ob) (\<lambda>ob.
     bnd (opt_block (\<lambda>ob.
            bnd read_uint (\<lambda>n.
            thn (seq [ReadBeginBracket,
                      for_loop n (\<lambda>i. seq [ReadBeginBracket, ignore ReadArray, ReadEndBracket]),
                      ReadEndBracket])
            (ret (ob\<lparr>geometry := (geometry ob)\<lparr>texCoordDataList :=
                   resize n None (texCoordDataList (geometry ob))\<rparr>\<rparr>))))
          ob) (\<lambda>ob.
     thn (ignore read_bool) (ret ob)))))"

definition readArrayIfTrue :: "ref rd \<Rightarrow> ref rd" where
  "readArrayIfTrue readObject =
     bnd (readObjectIfTrue readObject) (dynamic_pointer_cast is_Array)"

definition read_arrays :: "ref rd \<Rightarrow> obj \<Rightarrow> obj rd" where
  "read_arrays readObject ob =
     bnd (readArrayIfTrue readObject) (\<lambda>a1.
     bnd (readArrayIfTrue readObject) (\<lambda>a2.
     bnd (readArrayIfTrue readObject) (\<lambda>a3.
     bnd (readArrayIfTrue readObject) (\<lambda>a4.
     bnd (readArrayIfTrue readObject) (\<lambda>a5.
     bnd read_uint (\<lambda>n.
     bnd (for_acc n (\<lambda>i ob.
            bnd readObject (\<lambda>p.
            bnd (dynamic_pointer_cast is_Array p) (\<lambda>a.
            ret (ob\<lparr>geometry := (geometry ob)\<lparr>texCoordDataList :=
                   (texCoordDataList (geometry ob))[i := a]\<rparr>\<rparr>))))
          (ob\<lparr>geometry := (geometry ob)
             \<lparr>vertexData := a1, normalData := a2, colorData := a3,
              secondaryColorData := a4, fogCoordData := a5,
              texCoordDataList := resize n None (texCoordDataList (geometry ob))\<rparr>\<rparr>)) (\<lambda>ob.
     bnd read_uint (\<lambda>m.
     thn (for_loop m (\<lambda>i. bnd readObject (\<lambda>p. ignore (dynamic_pointer_cast is_Array p))))
     (ret ob)))))))))"

definition readObjectFields_Geometry :: "ref rd \<Rightarrow> obj \<Rightarrow> obj rd" where
  "readObjectFields_Geometry readObject ob =
     bnd read_uint (\<lambda>n.
     bnd (gets version) (\<lambda>v.
     bnd (if v < 112 then read_PrimitiveSets_legacy n ob
          else read_PrimitiveSets readObject n ob) (\<lambda>ob.
     if v < 112 then read_arrays_legacy ob else read_arrays readObject ob)))"

definition read_ModeList :: "nat \<Rightarrow> (nat \<times> nat) list \<Rightarrow> (nat \<times> nat) list rd" where
  "read_ModeList n ms =
     for_acc n (\<lambda>i ms.
       bnd read_uint (\<lambda>m.
       bnd read_uint (\<lambda>v.
       ret (ms @ [(m, v)])))) ms"

definition read_AttributeList ::
  "ref rd \<Rightarrow> nat \<Rightarrow> (addr \<times> nat) list \<Rightarrow> (addr \<times> nat) list rd" where
  "read_AttributeList readObject n as =
     for_acc n (\<lambda>i as.
       bnd readObject (\<lambda>p.
       bnd (dynamic_pointer_cast is_StateAttribute p) (\<lambda>attribute.
       bnd read_uint (\<lambda>v.
       ret (case attribute of Some a \<Rightarrow> as @ [(a, v)] | None \<Rightarrow> as))))) as"

definition readObjectFields_StateSet :: "ref rd \<Rightarrow> obj \<Rightarrow> obj rd" where
  "readObjectFields_StateSet readObject ob =
     bnd (opt_block (\<lambda>ob.
            bnd read_uint (\<lambda>n.
            thn ReadBeginBracket
            (bnd (read_ModeList n (modes (stateSetData ob))) (\<lambda>ms.
            thn ReadEndBracket
            (ret (ob\<lparr>stateSetData := (stateSetData ob)\<lparr>modes := ms\<rparr>\<rparr>))))))
          ob) (\<lambda>ob.
     bnd (opt_block (\<lambda>ob.
            bnd read_uint (\<lambda>n.
            thn ReadBeginBracket
            (bnd (read_AttributeList readObject n (attributes (stateSetData ob))) (\<lambda>as.
            thn ReadEndBracket
            (ret (ob\<lparr>stateSetData := (stateSetData ob)\<lparr>attributes := as\<rparr>\<rparr>))))))
          ob) (\<lambda>ob.
     bnd (opt_block (\<lambda>ob.
            bnd read_uint (\<lambda>n.
            thn ReadBeginBracket
            (bnd (for_acc n (\<lambda>i ob.
                    bnd read_uint (\<lambda>k.
                    thn ReadBeginBracket
                    (bnd (read_ModeList k []) (\<lambda>ms.
                    thn ReadEndBracket
                    (ret (ob\<lparr>stateSetData := (stateSetData ob)\<lparr>textureModesList :=
                           textureModesList (stateSetData ob) @ [ms]\<rparr>\<rparr>))))))
                  ob) (\<lambda>ob.
            thn ReadEndBracket (ret ob)))))
          ob) (\<lambda>ob.
     bnd (opt_block (\<lambda>ob.
            bnd read_uint (\<lambda>n.
            thn ReadBeginBracket
            (bnd (for_acc n (\<lambda>i ob.
                    bnd read_uint (\<lambda>k.
                    thn ReadBeginBracket
                    (bnd (read_AttributeList readObject k []) (\<lambda>as.
                    thn ReadEndBracket
                    (ret (ob\<lparr>stateSetData := (stateSetData ob)\<lparr>textureAttributesList :=
                           textureAttributesList (stateSetData ob) @ [as]\<rparr>\<rparr>))))))
                  ob) (\<lambda>ob.
            thn ReadEndBracket (ret ob)))))
          ob) (\<lambda>ob.
     thn (opt (bnd read_uint (\<lambda>n.
            seq [ReadBeginBracket,
                 for_loop n (\<lambda>i. thn (ignore readObject) (ignore read_uint)),
                 ReadEndBracket])))
     (bnd read_int (\<lambda>hint.
     thn (seq [ignore read_uint, ignore read_uint, ignore read_string, ignore read_bool,
               ignore (readObjectIfTrue readObject), ignore (readObjectIfTrue readObject)])
     (bnd (gets version) (\<lambda>v.
     thn (if_then (v \<ge> 151) (opt (bnd read_uint (\<lambda>n.
            seq [ReadBeginBracket,
                 for_loop n (\<lambda>i. seq [ignore read_string, ignore read_string, ignore read_int]),
                 ReadEndBracket]))))
     (ret (ob\<lparr>stateSetData := (stateSetData ob)\<lparr>renderingHint := hint\<rparr>\<rparr>))))))))))"

definition readObjectFields_StateAttribute :: "ref rd \<Rightarrow> obj \<Rightarrow> obj rd" where
  "readObjectFields_StateAttribute readObject ob =
     thn (ignore (readObjectIfTrue readObject))
     (thn (ignore (readObjectIfTrue readObject))
     (ret ob))"

definition read_Property_Vec4f :: "vec4f Property rd" where
  "read_Property_Vec4f =
     bnd read_bool (\<lambda>fb.
     bnd read_Vec4f (\<lambda>f.
     bnd read_Vec4f (\<lambda>b.
     ret \<lparr>frontAndBack = fb, front_v = f, back_v = b\<rparr>)))"

definition read_Property_float :: "float32 Property rd" where
  "read_Property_float =
     bnd read_bool (\<lambda>fb.
     bnd read_float (\<lambda>f.
     bnd read_float (\<lambda>b.
     ret \<lparr>frontAndBack = fb, front_v = f, back_v = b\<rparr>)))"

definition readObjectFields_Material :: "obj \<Rightarrow> obj rd" where
  "readObjectFields_Material ob =
     thn (ignore read_uint)
     (chain
       [opt_block (\<lambda>ob. bnd read_Property_Vec4f (\<lambda>p.
          ret (ob\<lparr>material := (material ob)\<lparr>ambient := p\<rparr>\<rparr>))),
        opt_block (\<lambda>ob. bnd read_Property_Vec4f (\<lambda>p.
          ret (ob\<lparr>material := (material ob)\<lparr>diffuse := p\<rparr>\<rparr>))),
        opt_block (\<lambda>ob. bnd read_Property_Vec4f (\<lambda>p.
          ret (ob\<lparr>material := (material ob)\<lparr>specular := p\<rparr>\<rparr>))),
        opt_block (\<lambda>ob. bnd read_Property_Vec4f (\<lambda>p.
          ret (ob\<lparr>material := (material ob)\<lparr>emission := p\<rparr>\<rparr>))),
        opt_block (\<lambda>ob. bnd read_Property_float (\<lambda>p.
          ret (ob\<lparr>material := (material ob)\<lparr>shininess := p\<rparr>\<rparr>)))]
       ob)"

definition readObjectFields_Texture :: "obj \<Rightarrow> obj rd" where
  "readObjectFields_Texture ob =
     bnd (chain
       [opt_block (\<lambda>ob. bnd read_int (\<lambda>w. ret (ob\<lparr>texture := (texture ob)\<lparr>wrapS := w\<rparr>\<rparr>))),
        opt_block (\<lambda>ob. bnd read_int (\<lambda>w. ret (ob\<lparr>texture := (texture ob)\<lparr>wrapT := w\<rparr>\<rparr>))),
        opt_block (\<lambda>ob. bnd read_int (\<lambda>w. ret (ob\<lparr>texture := (texture ob)\<lparr>wrapR := w\<rparr>\<rparr>)))]
       ob) (\<lambda>ob.
     thn (seq [opt (ignore read_uint), opt (ignore read_uint),
               ignore read_float,
               ignore read_bool, ignore read_bool, ignore read_bool, ignore read_bool,
               ignore (read_bytes (8 * 4)),
               ignore read_int, ignore read_int,
               opt (ignore read_uint), opt (ignore read_uint), opt (ignore read_uint),
               ignore read_bool, ignore read_uint, ignore read_uint, ignore read_float])
     (bnd (gets version) (\<lambda>v.
     thn (seq [if_then (v \<ge> 95 \<and> v < 154) (opt (ignore (read_bytes (4 * 6)))),
               if_then (v \<ge> 98) (opt (ignore read_string)),
               if_then (v \<ge> 155) (seq [ignore read_float, ignore read_float, ignore read_float])])
     (ret ob))))"

definition readObjectFields_Texture2D :: "ref rd \<Rightarrow> obj \<Rightarrow> obj rd" where
  "readObjectFields_Texture2D readObject ob =
     bnd (readImage readObject) (\<lambda>img.
     thn (ignore read_uint)
     (thn (ignore read_uint)
     (ret (ob\<lparr>image_ref := img\<rparr>))))"

definition readObjectFields_DefaultUserDataContainer :: "ref rd \<Rightarrow> obj \<Rightarrow> obj rd" where
  "readObjectFields_DefaultUserDataContainer readObject ob =
     thn (seq [opt (seq [ReadBeginBracket, ignore readObject, ReadEndBracket]),
               opt (bnd read_uint (\<lambda>n.
                 seq [ReadBeginBracket, for_loop n (\<lambda>i. ignore read_string), ReadEndBracket])),
               opt (bnd read_uint (\<lambda>n.
                 seq [ReadBeginBracket, for_loop n (\<lambda>i. ignore readObject), ReadEndBracket]))])
     (ret ob)"

definition readObjectFields_Array :: "obj \<Rightarrow> obj rd" where
  "readObjectFields_Array ob =
     bnd read_int (\<lambda>b.
     bnd read_bool (\<lambda>nrm.
     thn (ignore read_bool)
     (bnd read_uint (\<lambda>n.
     bnd (gets pos) (\<lambda>p.
     ret (ob\<lparr>array := (array ob)\<lparr>binding := b, normalize_flag := nrm,
            elementCount := n, elementData := Some p\<rparr>\<rparr>))))))"

definition readObjectFields_Vec2Array :: "obj \<Rightarrow> obj rd" where
  "readObjectFields_Vec2Array ob =
     thn (skip (elementCount (array ob) * 4 * 2)) (ret ob)"

definition readObjectFields_Vec3Array :: "obj \<Rightarrow> obj rd" where
  "readObjectFields_Vec3Array ob =
     thn (skip (elementCount (array ob) * 4 * 3)) (ret ob)"

subsection \<open>The dispatcher\<close>

text \<open>\<^verbatim>\<open>readObjectData<T>()\<close>: the chain of field readers of each class, base first.\<close>

definition readObjectData_PagedLOD :: "ref rd \<Rightarrow> ref rd" where
  "readObjectData_PagedLOD readObject =
     construct PagedLOD
       [readObjectFields_Object readObject, readObjectFields_Node readObject,
        readObjectFields_LOD, readObjectFields_PagedLOD readObject]"

definition readObjectData_Group :: "ref rd \<Rightarrow> ref rd" where
  "readObjectData_Group readObject =
     construct Group
       [readObjectFields_Object readObject, readObjectFields_Node readObject,
        readObjectFields_Group readObject]"

definition readObjectData_Geode :: "ref rd \<Rightarrow> ref rd" where
  "readObjectData_Geode readObject =
     construct Geode
       [readObjectFields_Object readObject, readObjectFields_Node readObject,
        readObjectFields_Geode readObject]"

definition readObjectData_Geometry :: "ref rd \<Rightarrow> ref rd" where
  "readObjectData_Geometry readObject =
     construct Geometry
       [readObjectFields_Object readObject,
        (\<lambda>ob. bnd (gets version) (\<lambda>v.
           if v \<ge> 154 then readObjectFields_Node readObject ob else ret ob)),
        readObjectFields_Drawable readObject, readObjectFields_Geometry readObject]"

definition readObjectData_DrawElementsUInt :: "ref rd \<Rightarrow> ref rd" where
  "readObjectData_DrawElementsUInt readObject =
     construct DrawElementsUInt
       [readObjectFields_Object readObject, readObjectFields_PrimitiveSet,
        readObjectFields_DrawElementsUInt]"

definition readObjectData_StateSet :: "ref rd \<Rightarrow> ref rd" where
  "readObjectData_StateSet readObject =
     construct StateSet
       [readObjectFields_Object readObject, readObjectFields_StateSet readObject]"

definition readObjectData_Material :: "ref rd \<Rightarrow> ref rd" where
  "readObjectData_Material readObject =
     construct Material
       [readObjectFields_Object readObject, readObjectFields_StateAttribute readObject,
        readObjectFields_Material]"

definition readObjectData_Texture2D :: "ref rd \<Rightarrow> ref rd" where
  "readObjectData_Texture2D readObject =
     construct Texture2D
       [readObjectFields_Object readObject, readObjectFields_StateAttribute readObject,
        readObjectFields_Texture, readObjectFields_Texture2D readObject]"

definition readObjectData_DefaultUserDataContainer :: "ref rd \<Rightarrow> ref rd" where
  "readObjectData_DefaultUserDataContainer readObject =
     construct DefaultUserDataContainer
       [readObjectFields_Object readObject,
        readObjectFields_DefaultUserDataContainer readObject]"

definition readObjectData_Vec3Array :: "ref rd \<Rightarrow> ref rd" where
  "readObjectData_Vec3Array readObject =
     construct Vec3Array
       [readObjectFields_Object readObject, readObjectFields_Array,
        readObjectFields_Vec3Array]"

definition readObjectData_Vec2Array :: "ref rd \<Rightarrow> ref rd" where
  "readObjectData_Vec2Array readObject =
     construct Vec2Array
       [readObjectFields_Object readObject, readObjectFields_Array,
        readObjectFields_Vec2Array]"

text \<open>The \<^verbatim>\<open>if\<close>/\<^verbatim>\<open>else if\<close> cascade on the class name.\<close>

definition dispatch :: "ref rd \<Rightarrow> string \<Rightarrow> ref rd" where
  "dispatch readObject className =
     (if className = ''osg::PagedLOD'' then readObjectData_PagedLOD readObject
      else if className = ''osg::Group'' then readObjectData_Group readObject
      else if className = ''osg::Geode'' then readObjectData_Geode readObject
      else if className = ''osg::Geometry'' then readObjectData_Geometry readObject
      else if className = ''osg::StateSet'' then readObjectData_StateSet readObject
      else if className = ''osg::Material'' then readObjectData_Material readObject
      else if className = ''osg::Texture2D'' then readObjectData_Texture2D readObject
      else if className = ''osg::DefaultUserDataContainer''
        then readObjectData_DefaultUserDataContainer readObject
      else if className = ''osg::DrawElementsUInt''
        then readObjectData_DrawElementsUInt readObject
      else if className = ''osg::Vec3Array'' then readObjectData_Vec3Array readObject
      else if className = ''osg::Vec2Array'' then readObjectData_Vec2Array readObject
      else throw (''unsupported object class: '' @ className))"

text \<open>
  What \<^verbatim>\<open>readObject\<close> does after it found the identity unregistered: the class's reader
  runs first, and only then the new object gets its identity and enters \<^verbatim>\<open>_objects\<close>.
\<close>

definition register_object :: "nat \<Rightarrow> ref \<Rightarrow> unit rd" where
  "register_object uid object =
     (case object of
        Some a \<Rightarrow>
          thn (update_obj a (\<lambda>ob. ob\<lparr>uniqueId := uid\<rparr>))
              (modify (\<lambda>r. r\<lparr>objects := (objects r)(uid \<mapsto> a)\<rparr>))
      | None \<Rightarrow> ret ())"

definition readObject_body :: "ref rd \<Rightarrow> ref rd" where
  "readObject_body readObject =
     bnd read_string (\<lambda>className.
     if className = [] then ret None
     else
       thn ReadBeginBracket
       (bnd read_uint (\<lambda>uid.
       bnd (gets objects) (\<lambda>registry.
       case registry uid of
         Some a \<Rightarrow> ret (Some a)
       | None \<Rightarrow>
           bnd (dispatch readObject className) (\<lambda>object.
           thn ReadEndBracket
           (thn (register_object uid object)
           (ret object)))))))"

text \<open>
  \<^verbatim>\<open>readObject\<close> calls itself through the field readers. The recursion of the model is on
  a bound of the nesting depth; \<open>Data_read\<close> starts it with more than the buffer has bytes,
  and each level of nesting reads at least the four bytes of a class name's length.
\<close>

primrec readObject :: "nat \<Rightarrow> ref rd" where
  "readObject 0 = (\<lambda>r. Inl OutOfFuel)"
| "readObject (Suc fuel) = readObject_body (readObject fuel)"

subsection \<open>The entry point\<close>

record Data =
  rootObject :: ref
  store :: "obj list"

definition new_Reader :: "byte list \<Rightarrow> reader" where
  "new_Reader buf =
     \<lparr>buffer = buf, pos = 0, version = 0, useBinaryBrackets = False,
      objects = Map.empty, images = Map.empty, arrays = Map.empty, heap = []\<rparr>"

text \<open>
  \<^verbatim>\<open>Data::read\<close> (release build): \<open>Inl e\<close> when a \<^verbatim>\<open>Reader::Error\<close> was caught (the result is
  \<^verbatim>\<open>nullptr\<close>, and \<^verbatim>\<open>*error\<close> is \<open>error_text e\<close>), \<open>Inr None\<close> for the \<^verbatim>\<open>nullptr\<close> returned
  without an exception, \<open>Inr (Some d)\<close> for the data.
\<close>

definition Data_read_fuel :: "nat \<Rightarrow> byte list \<Rightarrow> error + Data option" where
  "Data_read_fuel fuel buf =
     (case thn readHeader (readObject fuel) (new_Reader buf) of
        Inl e \<Rightarrow> Inl e
      | Inr (root, r) \<Rightarrow>
          if root \<noteq> None \<and> ended r then Inr (Some \<lparr>rootObject = root, store = heap r\<rparr>)
          else Inr None)"

definition Data_read :: "byte list \<Rightarrow> error + Data option" where
  "Data_read buf = Data_read_fuel (Suc (length buf)) buf"

text \<open>
  \<^verbatim>\<open>ex.what()\<close> is the message as a C string: it ends before the first NUL character (a
  class name or a compressor name quoted in a message may hold one).
\<close>

definition what :: "error \<Rightarrow> string" where
  "what e = takeWhile (\<lambda>c. c \<noteq> CHR 0x00) (message e)"

definition error_text :: "error \<Rightarrow> string" where
  "error_text e =
     ''miniosgb reader error at offset '' @ nat_to_string (offset e) @ '': '' @ what e"

section \<open>Auxiliary definitions and example inputs\<close>

text \<open>The number of bytes a \<^verbatim>\<open>ReadBeginBracket\<close> skips in a reader state.\<close>

definition bracket_size :: "reader \<Rightarrow> nat" where
  "bracket_size r = (if useBinaryBrackets r then (if version r > 148 then 8 else 4) else 0)"

text \<open>
  The empty scene of the specification: magic, kind 1, version 100, attributes 4,
  compressor \<open>0\<close>, a bracket word of zeros and an empty class name.
\<close>

definition empty_scene :: "byte list" where
  "empty_scene =
    [161, 14, 145, 108, 69, 69, 251, 26, 1, 0, 0, 0, 100, 0, 0, 0, 4, 0, 0, 0,
     1, 0, 0, 0, 48, 0, 0, 0, 0, 0, 0, 0, 0]"

text \<open>A version 120 Group whose \<^verbatim>\<open>cullingActive\<close> byte, at offset 57, is 2.\<close>

definition bad_bool_scene :: "byte list" where
  "bad_bool_scene =
    [161, 14, 145, 108, 69, 69, 251, 26, 1, 0, 0, 0, 120, 0, 0, 0, 0, 0, 0, 0,
     1, 0, 0, 0, 48, 10, 0, 0, 0, 111, 115, 103, 58, 58, 71, 114, 111, 117, 112, 1,
     0, 0, 0, 0, 0, 0, 0, 0, 0, 0, 0, 0, 0, 0, 0, 0, 0, 2, 255, 255,
     255, 255, 0, 0]"

text \<open>
  Inputs that end where a payload or the word after a bracket prefix should start: a Group
  with brackets enabled that ends after its class name; a root Vec3Array announcing two
  elements; a Group whose first child is a DrawElementsUInt announcing three indices; a
  Texture2D whose inline image announces 1000 bytes.
\<close>

definition bracket_past_end :: "byte list" where
  "bracket_past_end =
    [161, 14, 145, 108, 69, 69, 251, 26, 1, 0, 0, 0, 100, 0, 0, 0, 4, 0, 0, 0,
     1, 0, 0, 0, 48, 10, 0, 0, 0, 111, 115, 103, 58, 58, 71, 114, 111, 117, 112]"

definition array_past_end :: "byte list" where
  "array_past_end =
    [161, 14, 145, 108, 69, 69, 251, 26, 1, 0, 0, 0, 120, 0, 0, 0, 0, 0, 0, 0,
     1, 0, 0, 0, 48, 14, 0, 0, 0, 111, 115, 103, 58, 58, 86, 101, 99, 51, 65, 114,
     114, 97, 121, 1, 0, 0, 0, 0, 0, 0, 0, 0, 0, 0, 0, 0, 4, 0, 0, 0,
     0, 0, 2, 0, 0, 0]"

definition indices_past_end :: "byte list" where
  "indices_past_end =
    [161, 14, 145, 108, 69, 69, 251, 26, 1, 0, 0, 0, 120, 0, 0, 0, 0, 0, 0, 0,
     1, 0, 0, 0, 48, 10, 0, 0, 0, 111, 115, 103, 58, 58, 71, 114, 111, 117, 112, 1,
     0, 0, 0, 0, 0, 0, 0, 0, 0, 0, 0, 0, 0, 0, 0, 0, 0, 1, 255, 255,
     255, 255, 0, 1, 2, 0, 0, 0, 21, 0, 0, 0, 111, 115, 103, 58, 58, 68, 114, 97,
     119, 69, 108, 101, 109, 101, 110, 116, 115, 85, 73, 110, 116, 2, 0, 0, 0, 0, 0, 0,
     0, 0, 0, 0, 0, 0, 0, 0, 0, 0, 4, 0, 0, 0, 3, 0, 0, 0]"

definition image_past_end :: "byte list" where
  "image_past_end =
    [161, 14, 145, 108, 69, 69, 251, 26, 1, 0, 0, 0, 120, 0, 0, 0, 0, 0, 0, 0,
     1, 0, 0, 0, 48, 14, 0, 0, 0, 111, 115, 103, 58, 58, 84, 101, 120, 116, 117, 114,
     101, 50, 68, 1, 0, 0, 0, 0, 0, 0, 0, 0, 0, 0, 0, 0, 0, 0, 0, 0,
     0, 0, 0, 0, 0, 128, 63, 0, 0, 0, 0, 0, 0, 0, 0, 0, 0, 0, 0, 0,
     0, 0, 0, 0, 0, 0, 0, 0, 0, 0, 0, 0, 0, 0, 0, 0, 0, 0, 0, 0,
     0, 0, 0, 0, 0, 0, 0, 0, 0, 0, 0, 0, 0, 0, 0, 0, 0, 0, 0, 0,
     0, 0, 0, 0, 0, 0, 0, 0, 0, 1, 10, 0, 0, 0, 111, 115, 103, 58, 58, 73,
     109, 97, 103, 101, 2, 0, 0, 0, 0, 0, 0, 0, 0, 0, 0, 0, 1, 0, 0, 0,
     232, 3, 0, 0]"


definition shared_child :: "byte list" where
  "shared_child =
    [161, 14, 145, 108, 69, 69, 251, 26, 1, 0, 0, 0, 100, 0, 0, 0, 0, 0, 0, 0,
     1, 0, 0, 0, 48, 10, 0, 0, 0, 111, 115, 103, 58, 58, 71, 114, 111, 117, 112, 1,
     0, 0, 0, 0, 0, 0, 0, 0, 0, 0, 0, 0, 0, 0, 0, 0, 0, 1, 255, 255,
     255, 255, 0, 1, 2, 0, 0, 0, 10, 0, 0, 0, 111, 115, 103, 58, 58, 71, 114, 111,
     117, 112, 2, 0, 0, 0, 0, 0, 0, 0, 0, 0, 0, 0, 0, 0, 0, 0, 0, 0,
     1, 255, 255, 255, 255, 0, 0, 10, 0, 0, 0, 111, 115, 103, 58, 58, 71, 114, 111, 117,
     112, 2, 0, 0, 0]"

definition self_reference :: "byte list" where
  "self_reference =
    [161, 14, 145, 108, 69, 69, 251, 26, 1, 0, 0, 0, 100, 0, 0, 0, 0, 0, 0, 0,
     1, 0, 0, 0, 48, 10, 0, 0, 0, 111, 115, 103, 58, 58, 71, 114, 111, 117, 112, 5,
     0, 0, 0, 0, 0, 0, 0, 0, 0, 0, 0, 0, 0, 0, 0, 0, 0, 1, 255, 255,
     255, 255, 0, 1, 1, 0, 0, 0, 10, 0, 0, 0, 111, 115, 103, 58, 58, 71, 114, 111,
     117, 112, 5, 0, 0, 0]"

text \<open>
  A version 120 Texture2D (identity 1) with an inline image (identity 2, three bytes) whose
  user data is a second Texture2D (identity 3) that refers to the image by its identity.
\<close>

definition image_self_reference :: "byte list" where
  "image_self_reference =
    [161, 14, 145, 108, 69, 69, 251, 26, 1, 0, 0, 0, 120, 0, 0, 0, 0, 0, 0, 0,
     1, 0, 0, 0, 48, 14, 0, 0, 0, 111, 115, 103, 58, 58, 84, 101, 120, 116, 117, 114,
     101, 50, 68, 1, 0, 0, 0, 0, 0, 0, 0, 0, 0, 0, 0, 0, 0, 0, 0, 0,
     0, 0, 0, 0, 0, 128, 63, 0, 0, 0, 0, 0, 0, 0, 0, 0, 0, 0, 0, 0,
     0, 0, 0, 0, 0, 0, 0, 0, 0, 0, 0, 0, 0, 0, 0, 0, 0, 0, 0, 0,
     0, 0, 0, 0, 0, 0, 0, 0, 0, 0, 0, 0, 0, 0, 0, 0, 0, 0, 0, 0,
     0, 0, 0, 0, 0, 0, 0, 0, 0, 1, 10, 0, 0, 0, 111, 115, 103, 58, 58, 73,
     109, 97, 103, 101, 2, 0, 0, 0, 0, 0, 0, 0, 0, 0, 0, 0, 1, 0, 0, 0,
     3, 0, 0, 0, 7, 8, 9, 0, 0, 0, 0, 0, 0, 0, 0, 1, 14, 0, 0, 0,
     111, 115, 103, 58, 58, 84, 101, 120, 116, 117, 114, 101, 50, 68, 3, 0, 0, 0, 0, 0,
     0, 0, 0, 0, 0, 0, 0, 0, 0, 0, 0, 0, 0, 0, 0, 0, 128, 63, 0, 0,
     0, 0, 0, 0, 0, 0, 0, 0, 0, 0, 0, 0, 0, 0, 0, 0, 0, 0, 0, 0,
     0, 0, 0, 0, 0, 0, 0, 0, 0, 0, 0, 0, 0, 0, 0, 0, 0, 0, 0, 0,
     0, 0, 0, 0, 0, 0, 0, 0, 0, 0, 0, 0, 0, 0, 0, 0, 0, 0, 0, 0,
     1, 10, 0, 0, 0, 111, 115, 103, 58, 58, 73, 109, 97, 103, 101, 2, 0, 0, 0, 0,
     0, 0, 0, 0, 0, 0, 0, 0, 0, 0, 0, 0, 0, 0, 0]"

text \<open>
  Reader states at the start of an object, an inline image and an inline array: the class
  name \<open>osg::Group\<close> and identity 7, with identity 7 registered (\<open>cached_state\<close>) or not
  (\<open>fresh_state\<close>); the flag, class name and identity 2 of an image; the flag, identity 9
  and type 16 of an array.
\<close>

definition cached_group_bytes :: "byte list" where
  "cached_group_bytes =
    [10, 0, 0, 0, 111, 115, 103, 58, 58, 71, 114, 111, 117, 112, 7, 0, 0, 0]"

definition image_head_bytes :: "byte list" where
  "image_head_bytes =
    [1, 10, 0, 0, 0, 111, 115, 103, 58, 58, 73, 109, 97, 103, 101, 2, 0, 0, 0]"

definition array_head_bytes :: "byte list" where
  "array_head_bytes =
    [1, 9, 0, 0, 0, 16, 0, 0, 0]"


definition fresh_state :: reader where
  "fresh_state = (new_Reader cached_group_bytes)\<lparr>version := 100\<rparr>"

definition image_head_state :: reader where
  "image_head_state = (new_Reader image_head_bytes)\<lparr>version := 120\<rparr>"

definition array_head_state :: reader where
  "array_head_state = (new_Reader array_head_bytes)\<lparr>version := 100\<rparr>"

text \<open>
  The Drawable layer in the order claim C7 gives it: state set, initial bound, the six
  optional objects, and the three booleans last. It is compared with the layer of the
  source, \<open>readObjectFields_Drawable\<close>.
\<close>

definition Drawable_layer_as_claimed :: "ref rd \<Rightarrow> obj \<Rightarrow> obj rd" where
  "Drawable_layer_as_claimed ro ob =
     bnd (readObjectIfTrue ro) (\<lambda>p.
     bnd (dynamic_pointer_cast is_StateSet p) (\<lambda>s.
     thn (seq [opt (ignore (read_bytes (8 * 6))),
               ignore (readObjectIfTrue ro),
               ignore (readObjectIfTrue ro),
               ignore (readObjectIfTrue ro),
               ignore (readObjectIfTrue ro),
               ignore (readObjectIfTrue ro),
               ignore (readObjectIfTrue ro),
               ignore read_bool,
               ignore read_bool,
               ignore read_bool])
     (ret (ob\<lparr>stateSet := s\<rparr>))))"

text \<open>
  Eleven bytes of a Drawable layer without state set, bound and callbacks, whose three
  booleans are all true.
\<close>

definition drawable_state :: reader where
  "drawable_state = (new_Reader [0, 0, 0, 0, 1, 1, 1, 0, 0, 0, 0])\<lparr>version := 120\<rparr>"

text \<open>
  A Drawable layer of version 120 with a state set (an \<^verbatim>\<open>osg::StateSet\<close> of identity 7, in
  the bytes 1 to 54), an initial bound (the flag at 55, 48 bytes), no compute-bounding-box
  callback and no shape (the flags at 104 and 105), the booleans true, false, true (at
  106 to 108), and no other callback (the flags at 109 to 112); the reader state before
  the layer, and the state after the state set has been read.
\<close>

definition stateset_drawable :: "byte list" where
  "stateset_drawable =
    [1, 13, 0, 0, 0, 111, 115, 103, 58, 58, 83, 116, 97, 116, 101, 83, 101, 116, 7, 0,
     0, 0, 0, 0, 0, 0, 0, 0, 0, 0, 0, 0, 0, 0, 0, 0, 0, 0, 0, 0,
     0, 0, 0, 0, 0, 0, 0, 0, 0, 0, 0, 0, 0, 0, 0, 1, 0, 0, 0, 0,
     0, 0, 0, 0, 0, 0, 0, 0, 0, 0, 0, 0, 0, 0, 0, 0, 0, 0, 0, 0,
     0, 0, 0, 0, 0, 0, 0, 0, 0, 0, 0, 0, 0, 0, 0, 0, 0, 0, 0, 0,
     0, 0, 0, 0, 0, 0, 1, 0, 1, 0, 0, 0, 0]"

definition stateset_drawable_state :: reader where
  "stateset_drawable_state = (new_Reader stateset_drawable)\<lparr>version := 120\<rparr>"

definition after_stateset :: reader where
  "after_stateset =
     stateset_drawable_state\<lparr>pos := 55, objects := [7 \<mapsto> 0],
       heap := [(default_obj StateSet)\<lparr>uniqueId := 7\<rparr>]\<rparr>"

text \<open>
  A version 100 Geometry (no brackets, no primitives) whose vertex data is an inline
  Vec2Array with identity 8 announcing \<open>2 ^ 29\<close> elements of 8 bytes; no element bytes
  follow the count.
\<close>

definition overflow_geometry :: "byte list" where
  "overflow_geometry =
    [161, 14, 145, 108, 69, 69, 251, 26, 1, 0, 0, 0, 100, 0, 0, 0, 0, 0, 0, 0,
     1, 0, 0, 0, 48, 13, 0, 0, 0, 111, 115, 103, 58, 58, 71, 101, 111, 109, 101, 116,
     114, 121, 1, 0, 0, 0, 0, 0, 0, 0, 0, 0, 0, 0, 0, 0, 0, 0, 0, 1,
     1, 1, 0, 0, 0, 0, 0, 0, 0, 0, 1, 1, 8, 0, 0, 0, 15, 0, 0, 0,
     0, 0, 0, 32, 0, 4, 0, 0, 0, 0, 0, 0, 0, 0, 0, 0, 0, 0, 0, 1]"

text \<open>
  Reference readers for the sequences of the wire format: \<open>read_n f n\<close> runs the reader
  \<open>f\<close> \<open>n\<close> times and returns the \<open>n\<close> results in order; \<open>read_float_pair\<close> reads two
  floats; \<open>read_classified ro\<close> reads one object with the dispatcher \<open>ro\<close> and returns it
  together with its dynamic class (none for the null object). \<open>keep_if is_T\<close> is what
  \<^verbatim>\<open>std::dynamic_pointer_cast<T>\<close> makes of such a pair.
\<close>

primrec read_n :: "'a rd \<Rightarrow> nat \<Rightarrow> 'a list rd" where
  "read_n f 0 = ret []"
| "read_n f (Suc n) = bnd f (\<lambda>x. bnd (read_n f n) (\<lambda>xs. ret (x # xs)))"

definition read_float_pair :: "(float32 \<times> float32) rd" where
  "read_float_pair = bnd read_float (\<lambda>a. bnd read_float (\<lambda>b. ret (a, b)))"

definition read_classified :: "ref rd \<Rightarrow> (ref \<times> cls option) rd" where
  "read_classified ro = bnd ro (\<lambda>p. gets (\<lambda>r. (p, map_option (\<lambda>a. cls (heap r ! a)) p)))"

definition keep_if :: "(cls \<Rightarrow> bool) \<Rightarrow> ref \<times> cls option \<Rightarrow> ref" where
  "keep_if is_T pc = (case snd pc of None \<Rightarrow> None | Some c \<Rightarrow> if is_T c then fst pc else None)"

text \<open>
  \<open>upd_from i f vs xs\<close>: the list \<open>xs\<close> after the assignments
  \<open>xs[i + j] := f (vs ! j) (xs ! (i + j))\<close> for \<open>j = 0, 1, \<dots>\<close> in turn.
\<close>

primrec upd_from :: "nat \<Rightarrow> ('v \<Rightarrow> 'a \<Rightarrow> 'a) \<Rightarrow> 'v list \<Rightarrow> 'a list \<Rightarrow> 'a list" where
  "upd_from i f [] xs = xs"
| "upd_from i f (v # vs) xs = upd_from (Suc i) f vs (xs[i := f v (xs ! i)])"

text \<open>
  The RangeDataList block of the specification's example: two file names, \<open>a.osgb\<close> and
  \<open>b.osgb\<close>, and three priority pairs (0.0, 1.0), (0.5, 1.5), (0.25, 1.25), as the bit
  patterns of the floats; and a version 120 PagedLOD with this block and no children.
\<close>

definition rdl_bytes :: "byte list" where
  "rdl_bytes =
    [2, 0, 0, 0, 6, 0, 0, 0, 97, 46, 111, 115, 103, 98, 6, 0, 0, 0, 98, 46,
     111, 115, 103, 98, 3, 0, 0, 0, 0, 0, 0, 0, 0, 0, 128, 63, 0, 0, 0, 63,
     0, 0, 192, 63, 0, 0, 128, 62, 0, 0, 160, 63]"

definition rdl_state :: reader where
  "rdl_state = (new_Reader rdl_bytes)\<lparr>version := 120\<rparr>"

definition pagedlod_scene :: "byte list" where
  "pagedlod_scene =
    [161, 14, 145, 108, 69, 69, 251, 26, 1, 0, 0, 0, 120, 0, 0, 0, 0, 0, 0, 0,
     1, 0, 0, 0, 48, 13, 0, 0, 0, 111, 115, 103, 58, 58, 80, 97, 103, 101, 100, 76,
     79, 68, 1, 0, 0, 0, 0, 0, 0, 0, 0, 0, 0, 0, 0, 0, 0, 0, 0, 0,
     1, 255, 255, 255, 255, 0, 0, 0, 0, 0, 0, 0, 0, 0, 0, 0, 0, 0, 0, 0,
     0, 0, 1, 2, 0, 0, 0, 6, 0, 0, 0, 97, 46, 111, 115, 103, 98, 6, 0, 0,
     0, 98, 46, 111, 115, 103, 98, 3, 0, 0, 0, 0, 0, 0, 0, 0, 0, 128, 63, 0,
     0, 0, 63, 0, 0, 192, 63, 0, 0, 128, 62, 0, 0, 160, 63, 0]"

text \<open>
  A version 120 Group with two children, a Group and a DrawElementsUInt (which is no
  Node), and the reader state in which the Group layer of the root starts.
\<close>

definition mixed_children :: "byte list" where
  "mixed_children =
    [161, 14, 145, 108, 69, 69, 251, 26, 1, 0, 0, 0, 120, 0, 0, 0, 0, 0, 0, 0,
     1, 0, 0, 0, 48, 10, 0, 0, 0, 111, 115, 103, 58, 58, 71, 114, 111, 117, 112, 1,
     0, 0, 0, 0, 0, 0, 0, 0, 0, 0, 0, 0, 0, 0, 0, 0, 0, 1, 255, 255,
     255, 255, 0, 1, 2, 0, 0, 0, 10, 0, 0, 0, 111, 115, 103, 58, 58, 71, 114, 111,
     117, 112, 2, 0, 0, 0, 0, 0, 0, 0, 0, 0, 0, 0, 0, 0, 0, 0, 0, 0,
     1, 255, 255, 255, 255, 0, 0, 21, 0, 0, 0, 111, 115, 103, 58, 58, 68, 114, 97, 119,
     69, 108, 101, 109, 101, 110, 116, 115, 85, 73, 110, 116, 3, 0, 0, 0, 0, 0, 0, 0,
     0, 0, 0, 0, 0, 0, 0, 0, 0, 4, 0, 0, 0, 0, 0, 0, 0]"

definition group_layer_state :: reader where
  "group_layer_state = (new_Reader mixed_children)\<lparr>pos := 63, version := 120, heap := [default_obj Group]\<rparr>"

subsection \<open>The recursion bound\<close>

text \<open>
  Two relations for the analysis of the bound on which \<open>readObject\<close> recurses. \<open>fuel_le f g\<close>:
  wherever \<open>f\<close> has an outcome other than the exhausted bound, \<open>g\<close> has the same outcome.
  \<open>advances b q f\<close>: started on the buffer \<open>b\<close> with the cursor at \<open>q\<close> or beyond, \<open>f\<close> does not
  exhaust the bound, and when it returns, the buffer is the same and the cursor has not
  moved back.
\<close>

definition fuel_le :: "'a rd \<Rightarrow> 'a rd \<Rightarrow> bool" where
  "fuel_le f g = (\<forall>r. f r = Inl OutOfFuel \<or> g r = f r)"

definition advances :: "byte list \<Rightarrow> nat \<Rightarrow> 'a rd \<Rightarrow> bool" where
  "advances b q f =
     (\<forall>r. buffer r = b \<and> q \<le> pos r \<longrightarrow>
        (case f r of Inl e \<Rightarrow> e \<noteq> OutOfFuel
         | Inr (x, r') \<Rightarrow> buffer r' = b \<and> pos r \<le> pos r'))"

named_theorems fuel_intros

named_theorems adv_intros

section \<open>Evaluation of the reader on concrete inputs\<close>

text \<open>
  The equations below unfold a reader only where it is applied to a state, so that the
  simplifier follows the one path a concrete input takes.
\<close>

lemma to_char_eq: "to_char b = c \<longleftrightarrow> unat b = of_char c"
proof -
  have "unat b < 2 ^ 8"
    using unsigned_less [of b] by simp
  then have "take_bit 8 (unat b) = unat b"
    by (simp only: take_bit_nat_eq_self)
  then show ?thesis
    by (simp add: to_char_def char_of_eq_iff)
qed

lemma readObject_eval:
  "readObject n r = (if n = 0 then Inl OutOfFuel else readObject_body (readObject (n - 1)) r)"
  by (cases n) simp_all

lemma for_from_eval:
  "for_from n i body r =
     (if n = 0 then Inr ((), r) else thn (body i) (for_from (n - 1) (Suc i) body) r)"
  by (cases n) (simp_all add: ret_def)

lemma for_acc_from_eval:
  "for_acc_from n i body x r =
     (if n = 0 then Inr (x, r) else bnd (body i x) (for_acc_from (n - 1) (Suc i) body) r)"
  by (cases n) (simp_all add: ret_def)

lemma read_n_eval:
  "read_n f n r = (if n = 0 then Inr ([], r)
     else bnd f (\<lambda>x. bnd (read_n f (n - 1)) (\<lambda>xs. ret (x # xs))) r)"
  by (cases n) (simp_all add: ret_def)

lemmas rd_eval =
  ret_def [THEN fun_cong] bnd_def [THEN fun_cong] thn_def [THEN fun_cong]
  ignore_def [THEN fun_cong] throw_def [THEN fun_cong] gets_def [THEN fun_cong]
  modify_def [THEN fun_cong] if_then_def
  for_loop_def for_acc_def for_from_eval for_acc_from_eval
  read_bytes_def [THEN fun_cong] read_uint_def [THEN fun_cong] read_int_def [THEN fun_cong]
  read_longlong_def [THEN fun_cong] read_float_def [THEN fun_cong]
  read_double_def [THEN fun_cong] read_Vec3d_def [THEN fun_cong] read_Vec4f_def [THEN fun_cong]
  read_bool_def [THEN fun_cong] load_bool_def read_string_def [THEN fun_cong]
  ReadBeginBracket_def [THEN fun_cong] ReadEndBracket_def
  readHeader_def [THEN fun_cong] make_shared_def [THEN fun_cong] update_obj_def
  construct_def [THEN fun_cong] dynamic_pointer_cast_def skip_def opt_def [THEN fun_cong]
  opt_block_def [THEN fun_cong] readObjectIfTrue_def [THEN fun_cong]
  readObjectFields_Object_def [THEN fun_cong] readObjectFields_Node_def [THEN fun_cong]
  read_Children_def [THEN fun_cong] readObjectFields_Group_def [THEN fun_cong]
  readObjectFields_LOD_def [THEN fun_cong] read_RangeDataList_def [THEN fun_cong]
  readObjectFields_PagedLOD_def [THEN fun_cong] readObjectFields_Geode_def [THEN fun_cong]
  readObjectFields_Drawable_def [THEN fun_cong]
  readObjectFields_PrimitiveSet_def [THEN fun_cong]
  readObjectFields_DrawElementsUInt_def [THEN fun_cong]
  ReadArray_def [THEN fun_cong] ReadArray_payload_def [THEN fun_cong]
  readImage_def [THEN fun_cong] readImage_payload_def [THEN fun_cong]
  read_PrimitiveSets_legacy_def [THEN fun_cong] read_PrimitiveSets_def [THEN fun_cong]
  read_discarded_array_def [THEN fun_cong] read_arrays_legacy_def [THEN fun_cong]
  readArrayIfTrue_def [THEN fun_cong] read_arrays_def [THEN fun_cong]
  readObjectFields_Geometry_def [THEN fun_cong]
  read_ModeList_def [THEN fun_cong] read_AttributeList_def [THEN fun_cong]
  readObjectFields_StateSet_def [THEN fun_cong]
  readObjectFields_StateAttribute_def [THEN fun_cong]
  read_Property_Vec4f_def [THEN fun_cong] read_Property_float_def [THEN fun_cong]
  readObjectFields_Material_def [THEN fun_cong] readObjectFields_Texture_def [THEN fun_cong]
  readObjectFields_Texture2D_def [THEN fun_cong]
  readObjectFields_DefaultUserDataContainer_def [THEN fun_cong]
  readObjectFields_Array_def [THEN fun_cong] readObjectFields_Vec2Array_def [THEN fun_cong]
  readObjectFields_Vec3Array_def [THEN fun_cong]
  readObjectData_PagedLOD_def [THEN fun_cong] readObjectData_Group_def [THEN fun_cong]
  readObjectData_Geode_def [THEN fun_cong] readObjectData_Geometry_def [THEN fun_cong]
  readObjectData_DrawElementsUInt_def [THEN fun_cong]
  readObjectData_StateSet_def [THEN fun_cong] readObjectData_Material_def [THEN fun_cong]
  readObjectData_Texture2D_def [THEN fun_cong]
  readObjectData_DefaultUserDataContainer_def [THEN fun_cong]
  readObjectData_Vec3Array_def [THEN fun_cong] readObjectData_Vec2Array_def [THEN fun_cong]
  dispatch_def [THEN fun_cong] register_object_def readObject_body_def [THEN fun_cong]
  readObject_eval le_nat_def le_int_def to_char_eq ended_def new_Reader_def
  Data_read_def Data_read_fuel_def resize_def default_obj_def default_Array_def
  is_Node_def is_Drawable_def is_StateSet_def is_StateAttribute_def is_PrimitiveSet_def
  is_Array_def bracket_size_def default_RangeData_def default_Range_def

section \<open>Basic facts about the primitive reads\<close>





lemma ReadBeginBracket_eq: "ReadBeginBracket r = Inr ((), r\<lparr>pos := pos r + bracket_size r\<rparr>)"
  by (simp add: ReadBeginBracket_def bracket_size_def)



lemma read_bool_at:
  "pos r < length (buffer r) \<Longrightarrow> buffer r ! pos r = 0 \<or> buffer r ! pos r = 1 \<Longrightarrow>
   read_bool r = Inr (buffer r ! pos r = 1, r\<lparr>pos := pos r + 1\<rparr>)"
  by (auto simp: read_bool_def load_bool_def)

section \<open>Laws of the reader monad and of the loops\<close>

lemma bnd_assoc: "bnd (bnd f g) h = bnd f (\<lambda>x. bnd (g x) h)"
  by (rule ext) (simp add: bnd_def split: sum.splits)

lemma bnd_ret_left: "bnd (ret x) f = f x"
  by (rule ext) (simp add: bnd_def ret_def)

lemma bnd_ret_right: "bnd f ret = f"
  by (rule ext) (simp add: bnd_def ret_def split: sum.splits)

lemma bnd_InrE:
  assumes "bnd f g r = Inr (y, r')"
  obtains x r1 where "f r = Inr (x, r1)" and "g x r1 = Inr (y, r')"
  using assms by (auto simp: bnd_def split: sum.splits)

lemma thn_InrE:
  assumes "thn f g r = Inr (y, r')"
  obtains x r1 where "f r = Inr (x, r1)" and "g r1 = Inr (y, r')"
  using assms by (auto simp: thn_def bnd_def split: sum.splits)

lemma opt_block_cases:
  assumes "opt_block f x r = Inr (y, r')"
  obtains r1 where "read_bool r = Inr (True, r1)" and "f x r1 = Inr (y, r')"
    | "read_bool r = Inr (False, r')" and "y = x"
  using assms by (auto simp: opt_block_def ret_def elim!: bnd_InrE split: if_splits)

text \<open>What a successful run of a composed reader consists of.\<close>

lemma ignore_InrE:
  assumes "ignore f r = Inr (u, r')"
  obtains x where "f r = Inr (x, r')"
  using assms by (auto simp: ignore_def ret_def elim!: bnd_InrE)

lemma ret_InrE:
  assumes "ret x r = Inr (y, r')"
  obtains "y = x" and "r' = r"
  using assms by (simp add: ret_def)

lemma seq_NilE:
  assumes "seq [] r = Inr (u, r')"
  obtains "r' = r"
  using assms by (simp add: ret_def)

lemma seq_ConsE:
  assumes "seq (f # fs) r = Inr (u, r')"
  obtains r1 where "f r = Inr ((), r1)" and "seq fs r1 = Inr (u, r')"
  using assms by (auto elim!: thn_InrE)

lemma opt_ignore_InrE:
  assumes "opt (ignore f) r = Inr (u, r')"
  obtains b r1 where "read_bool r = Inr (b, r1)"
    and "if b then (\<exists>x. f r1 = Inr (x, r')) else r' = r1"
  using assms
  by (auto simp: opt_def if_then_def ret_def elim!: bnd_InrE ignore_InrE split: if_splits)

lemma dynamic_pointer_cast_InrE:
  assumes "dynamic_pointer_cast is_T p r = Inr (s, r')"
  obtains "r' = r" and "dynamic_pointer_cast is_T p r = Inr (s, r)"
  using assms by (auto simp: dynamic_pointer_cast_def gets_def)

text \<open>
  A loop that assigns the \<open>i\<close>-th element of a list member in its \<open>i\<close>-th iteration reads
  the values in sequence and then holds them in the list.
\<close>

lemma for_acc_from_index:
  assumes step: "\<And>i x. body i x = bnd rd (\<lambda>v. ret (put (\<lambda>xs. xs[i := f v (xs ! i)]) x))"
    and put_put: "\<And>g h x. put g (put h x) = put (\<lambda>xs. g (h xs)) x"
    and put_id: "\<And>x. put (\<lambda>xs. xs) x = x"
  shows "for_acc_from k i body x = bnd (read_n rd k) (\<lambda>vs. ret (put (upd_from i f vs) x))"
proof (induction k arbitrary: i x)
  case 0
  have "upd_from i f [] = (\<lambda>xs. xs)"
    by (rule ext) simp
  then show ?case
    by (simp add: bnd_ret_left put_id)
next
  case (Suc k)
  have u: "upd_from i f (v # vs) = (\<lambda>xs. upd_from (Suc i) f vs (xs[i := f v (xs ! i)]))" for v vs
    by (rule ext) simp
  have ih: "for_acc_from k (Suc i) body
          = (\<lambda>y. bnd (read_n rd k) (\<lambda>vs. ret (put (upd_from (Suc i) f vs) y)))"
    by (rule ext) (rule Suc.IH)
  have "for_acc_from (Suc k) i body x
          = bnd (body i x) (\<lambda>y. bnd (read_n rd k) (\<lambda>vs. ret (put (upd_from (Suc i) f vs) y)))"
    by (simp add: ih)
  also have "\<dots> = bnd rd (\<lambda>v. bnd (read_n rd k) (\<lambda>vs. ret (put (upd_from i f (v # vs)) x)))"
    by (simp add: step bnd_assoc bnd_ret_left put_put u)
  also have "\<dots> = bnd (read_n rd (Suc k)) (\<lambda>vs. ret (put (upd_from i f vs) x))"
    by (simp add: bnd_assoc bnd_ret_left)
  finally show ?case .
qed

lemma length_upd_from: "length (upd_from i f vs xs) = length xs"
  by (induction vs arbitrary: i xs) simp_all

lemma nth_upd_from:
  "i + length vs \<le> length xs \<Longrightarrow> j < length xs \<Longrightarrow>
   upd_from i f vs xs ! j = (if i \<le> j \<and> j < i + length vs then f (vs ! (j - i)) (xs ! j) else xs ! j)"
proof (induction vs arbitrary: i xs)
  case Nil
  then show ?case by auto
next
  case (Cons v vs)
  then show ?case
    by (auto simp: nth_list_update nth_Cons')
qed

lemma upd_from_all: "length vs = length xs \<Longrightarrow> upd_from 0 (\<lambda>v _. v) vs xs = vs"
  by (rule nth_equalityI) (simp_all add: length_upd_from nth_upd_from)

lemma read_n_length: "read_n f n r = Inr (vs, r') \<Longrightarrow> length vs = n"
  by (induction n arbitrary: r vs r') (auto simp: bnd_def ret_def split: sum.splits)

lemma length_resize: "length (resize n d xs) = n"
  by (simp add: resize_def)

lemma nth_resize: "j < n \<Longrightarrow> resize n d xs ! j = (if j < length xs then xs ! j else d)"
  by (auto simp: resize_def nth_append)

lemma read_n_cast:
  "read_n (bnd ro (dynamic_pointer_cast is_T)) n
     = bnd (read_n (read_classified ro) n) (\<lambda>ps. ret (map (keep_if is_T) ps))"
proof (induction n)
  case 0
  show ?case by (simp add: bnd_ret_left)
next
  case (Suc n)
  have c: "bnd ro (dynamic_pointer_cast is_T) = bnd (read_classified ro) (\<lambda>pc. ret (keep_if is_T pc))"
    by (rule ext) (auto simp: bnd_def read_classified_def gets_def ret_def dynamic_pointer_cast_def
        keep_if_def split: sum.splits option.splits)
  have "read_n (bnd ro (dynamic_pointer_cast is_T)) (Suc n)
          = bnd (bnd ro (dynamic_pointer_cast is_T)) (\<lambda>x.
              bnd (bnd (read_n (read_classified ro) n) (\<lambda>ps. ret (map (keep_if is_T) ps)))
                (\<lambda>xs. ret (x # xs)))"
    using Suc.IH by simp
  also have "\<dots> = bnd (read_n (read_classified ro) (Suc n)) (\<lambda>ps. ret (map (keep_if is_T) ps))"
    by (simp add: c bnd_assoc bnd_ret_left)
  finally show ?case .
qed

section \<open>Booleans\<close>

text \<open>
  Claim C5 asks that a byte other than 0 and 1 at a boolean fails the parse with
  \<open>invalid bool value\<close> at its offset. The source attempts it, but tests the loaded \<^verbatim>\<open>bool\<close>
  against \<^verbatim>\<open>true\<close> and \<^verbatim>\<open>false\<close>, which no \<^verbatim>\<open>bool\<close> fails: \<open>read_bool\<close> never gives that error, in
  any state, and accepts every byte inside the buffer, moving the cursor by one. On
  \<open>bad_bool_scene\<close>, a Group whose \<^verbatim>\<open>cullingActive\<close> byte at offset 57 is 2 (the value read
  there is discarded), the parse succeeds and returns the Group.
\<close>

theorem read_bool_accepts_other_bytes:
  "read_bool r \<noteq> Inl (Error p ''invalid bool value'')
   \<and> (if pos r < length (buffer r)
      then read_bool r = Inr (load_bool (buffer r ! pos r), r\<lparr>pos := pos r + 1\<rparr>)
      else read_bool r = Inl (Error (pos r) ''read beyond data length''))
   \<and> bad_bool_scene ! 57 = 2
   \<and> read_bool ((new_Reader bad_bool_scene)\<lparr>pos := 57\<rparr>)
       = Inr (True, (new_Reader bad_bool_scene)\<lparr>pos := 58\<rparr>)
   \<and> (\<exists>d. Data_read bad_bool_scene = Inr (Some d)
          \<and> rootObject d = Some 0 \<and> map cls (store d) = [Group]
          \<and> map uniqueId (store d) = [1])"
proof -
  have "read_bool r \<noteq> Inl (Error p ''invalid bool value'')"
    by (simp add: read_bool_def Let_def)
  moreover have "if pos r < length (buffer r)
      then read_bool r = Inr (load_bool (buffer r ! pos r), r\<lparr>pos := pos r + 1\<rparr>)
      else read_bool r = Inl (Error (pos r) ''read beyond data length'')"
    by (simp add: read_bool_def Let_def)
  moreover have "bad_bool_scene ! 57 = 2"
    by (simp add: bad_bool_scene_def)
  moreover have "read_bool ((new_Reader bad_bool_scene)\<lparr>pos := 57\<rparr>)
       = Inr (True, (new_Reader bad_bool_scene)\<lparr>pos := 58\<rparr>)"
    by (simp add: bad_bool_scene_def new_Reader_def rd_eval)
  moreover have "\<exists>d. Data_read bad_bool_scene = Inr (Some d)
          \<and> rootObject d = Some 0 \<and> map cls (store d) = [Group]
          \<and> map uniqueId (store d) = [1]"
    by (simp add: bad_bool_scene_def Data_read_def Data_read_fuel_def new_Reader_def ended_def
        rd_eval del: readObject.simps)
  ultimately show ?thesis
    by blast
qed

section \<open>The empty scene\<close>

text \<open>
  Claim C2, as stated, fails: for the empty-scene input \<open>Data_read\<close> does not return data
  with a null root.
\<close>

theorem empty_scene_counterexample:
  "\<not> (\<exists>d. Data_read empty_scene = Inr (Some d) \<and> rootObject d = None)"
  by (simp add: empty_scene_def rd_eval del: readObject.simps)

text \<open>
  Claim C2, amended. On the empty-scene input the header is accepted; the dispatcher reads
  the four zero bytes after the header as an empty class name and returns the null root
  without reading a bracket; four of the 33 bytes are left unread, so \<open>ended\<close> is false, and
  \<open>Data_read\<close> returns the null result without an error.
\<close>

theorem empty_scene_parse:
  "thn readHeader (readObject (Suc (length empty_scene))) (new_Reader empty_scene)
     = Inr (None, (new_Reader empty_scene)\<lparr>pos := 29, version := 100, useBinaryBrackets := True\<rparr>)
   \<and> length empty_scene = 33
   \<and> \<not> ended ((new_Reader empty_scene)\<lparr>pos := 29, version := 100, useBinaryBrackets := True\<rparr>)
   \<and> Data_read empty_scene = Inr None"
  by (simp add: empty_scene_def rd_eval del: readObject.simps)

section \<open>Skips without a bounds check\<close>

text \<open>
  Claim C10. The bracket prefix and the zero-copy payloads (array elements, indices, inline
  image bytes) are skipped by adding to the position, whatever the length of the buffer:
  the skips never fail. On the four example inputs the position leaves the buffer at the
  skip; the parse fails at the next primitive read, with an offset beyond the end of the
  buffer, or, when no read follows, returns the null result because \<open>ended\<close> is false.
\<close>

theorem skips_are_unchecked:
  "(\<forall>r. ReadBeginBracket r = Inr ((), r\<lparr>pos := pos r + bracket_size r\<rparr>))
   \<and> (\<forall>n r. skip n r = Inr ((), r\<lparr>pos := pos r + n\<rparr>))
   \<and> (\<forall>ob r. readObjectFields_Vec2Array ob r
              = Inr (ob, r\<lparr>pos := pos r + elementCount (array ob) * 4 * 2\<rparr>))
   \<and> (\<forall>ob r. readObjectFields_Vec3Array ob r
              = Inr (ob, r\<lparr>pos := pos r + elementCount (array ob) * 4 * 3\<rparr>))
   \<and> (\<forall>ob r. readObjectFields_DrawElementsUInt ob r
              = Inr (ob, r\<lparr>pos := pos r + indexCount (primitiveSet ob) * 4\<rparr>))
   \<and> length bracket_past_end = 39
   \<and> Data_read bracket_past_end = Inl (Error 43 ''read beyond data length'')
   \<and> length array_past_end = 66
   \<and> (case thn readHeader (readObject (Suc (length array_past_end))) (new_Reader array_past_end)
       of Inr (root, r) \<Rightarrow> root = Some 0 \<and> pos r = 90 | Inl e \<Rightarrow> False)
   \<and> Data_read array_past_end = Inr None
   \<and> length indices_past_end = 118
   \<and> Data_read indices_past_end = Inl (Error 130 ''read beyond data length'')
   \<and> length image_past_end = 164
   \<and> Data_read image_past_end = Inl (Error 1164 ''read beyond data length'')"
proof -
  have 1: "\<forall>r. ReadBeginBracket r = Inr ((), r\<lparr>pos := pos r + bracket_size r\<rparr>)"
    by (simp add: ReadBeginBracket_def bracket_size_def)
  have 2: "\<forall>n r. skip n r = Inr ((), r\<lparr>pos := pos r + n\<rparr>)"
    by (simp add: skip_def modify_def)
  have 3: "\<forall>ob r. readObjectFields_Vec2Array ob r
              = Inr (ob, r\<lparr>pos := pos r + elementCount (array ob) * 4 * 2\<rparr>)"
    by (simp add: readObjectFields_Vec2Array_def skip_def modify_def thn_def bnd_def ret_def)
  have 4: "\<forall>ob r. readObjectFields_Vec3Array ob r
              = Inr (ob, r\<lparr>pos := pos r + elementCount (array ob) * 4 * 3\<rparr>)"
    by (simp add: readObjectFields_Vec3Array_def skip_def modify_def thn_def bnd_def ret_def)
  have 5: "\<forall>ob r. readObjectFields_DrawElementsUInt ob r
              = Inr (ob, r\<lparr>pos := pos r + indexCount (primitiveSet ob) * 4\<rparr>)"
    by (simp add: readObjectFields_DrawElementsUInt_def skip_def modify_def thn_def bnd_def
        ret_def)
  have 6: "length bracket_past_end = 39
     \<and> Data_read bracket_past_end = Inl (Error 43 ''read beyond data length'')"
    by (simp add: bracket_past_end_def rd_eval del: readObject.simps)
  have 7: "length array_past_end = 66
     \<and> (case thn readHeader (readObject (Suc (length array_past_end)))
               (new_Reader array_past_end)
         of Inr (root, r) \<Rightarrow> root = Some 0 \<and> pos r = 90 | Inl e \<Rightarrow> False)
     \<and> Data_read array_past_end = Inr None"
    by (simp add: array_past_end_def rd_eval del: readObject.simps)
  have 8: "length indices_past_end = 118
     \<and> Data_read indices_past_end = Inl (Error 130 ''read beyond data length'')"
    by (simp add: indices_past_end_def rd_eval del: readObject.simps)
  have 9: "length image_past_end = 164
     \<and> Data_read image_past_end = Inl (Error 1164 ''read beyond data length'')"
    by (simp add: image_past_end_def rd_eval del: readObject.simps)
  from 1 2 3 4 5 6 7 8 9 show ?thesis
    by blast
qed

section \<open>Identities and the registries\<close>




text \<open>The same on a whole input: both children of the root are the instance at address 1.\<close>

lemma shared_child_parse:
  "case Data_read shared_child of
     Inr (Some d) \<Rightarrow> rootObject d = Some 0 \<and> length (store d) = 2
       \<and> uniqueId (store d ! 0) = 1 \<and> children (store d ! 0) = [Some 1, Some 1]
       \<and> uniqueId (store d ! 1) = 2
   | _ \<Rightarrow> False"
  by (simp add: shared_child_def rd_eval del: readObject.simps)

text \<open>
  Claim C3, as stated, fails for the objects of the dispatcher. In \<open>self_reference\<close> the
  child of the Group with identity 5 is a reference to identity 5, inside the Group's own
  fields. The Group is not in the registry while its fields are read: the dispatcher takes
  the reference for a new object, looks for its payload and runs off the end of the 86
  bytes.
\<close>

theorem self_reference_counterexample:
  "length self_reference = 86
   \<and> Data_read self_reference = Inl (Error 86 ''read beyond data length'')"
  by (simp add: self_reference_def rd_eval del: readObject.simps)

text \<open>
  Claim C3, amended. A new inline image and a new inline array are entered into their
  registries before their payload is read: the rest of \<open>readImage\<close> (with the Object layer,
  the only place where an image's fields read nested objects) and the rest of \<open>ReadArray\<close>
  run in a state whose registry holds the new instance under its identity. A new object
  of the dispatcher is not entered before its fields are read: the class's reader runs in
  a state where the identity is unregistered, and \<open>register_object\<close> follows it.
\<close>

theorem registration_order:
  "(read_bool r = Inr (True, r1) \<and> if_then (version r1 > 94) (ignore read_string) r1 = Inr ((), r2)
      \<and> read_uint r2 = Inr (uid, r3) \<and> images r3 uid = None \<longrightarrow>
      readImage ro r = readImage_payload ro (length (heap r3))
        (r3\<lparr>heap := heap r3 @ [(default_obj Image)\<lparr>uniqueId := uid\<rparr>],
            images := (images r3)(uid \<mapsto> length (heap r3))\<rparr>))
 \<and> (read_bool s = Inr (True, s1) \<and> read_uint s1 = Inr (aid, s2) \<and> arrays s2 aid = None
      \<and> read_int s2 = Inr (t, s3) \<and> (t = 15 \<or> t = 16 \<or> t = 17) \<longrightarrow>
      ReadArray s = ReadArray_payload (length (heap s3))
        (s3\<lparr>heap := heap s3 @ [(default_obj (if t = 15 then Vec2Array else if t = 16 then Vec3Array
                                                else Vec4Array))\<lparr>uniqueId := aid\<rparr>],
            arrays := (arrays s3)(aid \<mapsto> length (heap s3))\<rparr>))
 \<and> (read_string q = Inr (className, q1) \<and> className \<noteq> []
      \<and> read_uint (q1\<lparr>pos := pos q1 + bracket_size q1\<rparr>) = Inr (oid, q2) \<and> objects q2 oid = None \<longrightarrow>
      readObject (Suc fuel) q =
        bnd (dispatch (readObject fuel) className) (\<lambda>object.
          thn ReadEndBracket (thn (register_object oid object) (ret object))) q2)"
proof -
  have img: "readImage ro r = readImage_payload ro (length (heap r3))
        (r3\<lparr>heap := heap r3 @ [(default_obj Image)\<lparr>uniqueId := uid\<rparr>],
            images := (images r3)(uid \<mapsto> length (heap r3))\<rparr>)"
    if "read_bool r = Inr (True, r1)" "if_then (version r1 > 94) (ignore read_string) r1 = Inr ((), r2)"
      "read_uint r2 = Inr (uid, r3)" "images r3 uid = None"
    using that
    by (simp add: readImage_def bnd_def thn_def gets_def make_shared_def update_obj_def modify_def)
  have arr: "ReadArray s = ReadArray_payload (length (heap s3))
        (s3\<lparr>heap := heap s3 @ [(default_obj (if t = 15 then Vec2Array else if t = 16 then Vec3Array
                                                else Vec4Array))\<lparr>uniqueId := aid\<rparr>],
            arrays := (arrays s3)(aid \<mapsto> length (heap s3))\<rparr>)"
    if "read_bool s = Inr (True, s1)" "read_uint s1 = Inr (aid, s2)" "arrays s2 aid = None"
      "read_int s2 = Inr (t, s3)" "t = 15 \<or> t = 16 \<or> t = 17"
    using that
    by (auto simp add: ReadArray_def bnd_def thn_def gets_def make_shared_def update_obj_def modify_def)
  have ob: "readObject (Suc fuel) q =
        bnd (dispatch (readObject fuel) className) (\<lambda>object.
          thn ReadEndBracket (thn (register_object oid object) (ret object))) q2"
    if "read_string q = Inr (className, q1)" "className \<noteq> []"
      "read_uint (q1\<lparr>pos := pos q1 + bracket_size q1\<rparr>) = Inr (oid, q2)" "objects q2 oid = None"
    using that
    by (simp add: readObject_body_def bnd_def thn_def gets_def ReadBeginBracket_eq)
  from img arr ob show ?thesis
    by blast
qed

theorem registration_order_witness:
  "readImage (readObject 0) image_head_state
     = readImage_payload (readObject 0) 0
         (image_head_state\<lparr>pos := 19, heap := [(default_obj Image)\<lparr>uniqueId := 2\<rparr>],
            images := [2 \<mapsto> 0]\<rparr>)
   \<and> ReadArray array_head_state
     = ReadArray_payload 0
         (array_head_state\<lparr>pos := 9, heap := [(default_obj Vec3Array)\<lparr>uniqueId := 9\<rparr>],
            arrays := [9 \<mapsto> 0]\<rparr>)
   \<and> readObject 1 fresh_state
     = bnd (dispatch (readObject 0) ''osg::Group'') (\<lambda>object.
         thn ReadEndBracket (thn (register_object 7 object) (ret object)))
         (fresh_state\<lparr>pos := 18\<rparr>)
   \<and> (case Data_read image_self_reference of
         Inr (Some d) \<Rightarrow> map cls (store d) = [Texture2D, Image, Texture2D]
           \<and> map uniqueId (store d) = [1, 2, 3]
           \<and> image_ref (store d ! 0) = Some 1 \<and> image_ref (store d ! 2) = Some 1
       | _ \<Rightarrow> False)"
proof -
  have i: "read_bool image_head_state = Inr (True, image_head_state\<lparr>pos := 1\<rparr>)
      \<and> if_then (version (image_head_state\<lparr>pos := 1\<rparr>) > 94) (ignore read_string)
            (image_head_state\<lparr>pos := 1\<rparr>) = Inr ((), image_head_state\<lparr>pos := 15\<rparr>)
      \<and> read_uint (image_head_state\<lparr>pos := 15\<rparr>) = Inr (2, image_head_state\<lparr>pos := 19\<rparr>)
      \<and> images (image_head_state\<lparr>pos := 19\<rparr>) 2 = None"
    by (simp add: image_head_state_def image_head_bytes_def rd_eval)
  have a: "read_bool array_head_state = Inr (True, array_head_state\<lparr>pos := 1\<rparr>)
      \<and> read_uint (array_head_state\<lparr>pos := 1\<rparr>) = Inr (9, array_head_state\<lparr>pos := 5\<rparr>)
      \<and> arrays (array_head_state\<lparr>pos := 5\<rparr>) 9 = None
      \<and> read_int (array_head_state\<lparr>pos := 5\<rparr>) = Inr (16, array_head_state\<lparr>pos := 9\<rparr>)
      \<and> ((16::int) = 15 \<or> (16::int) = 16 \<or> (16::int) = 17)"
    by (simp add: array_head_state_def array_head_bytes_def rd_eval)
  have q: "read_string fresh_state = Inr (''osg::Group'', fresh_state\<lparr>pos := 14\<rparr>)
      \<and> ''osg::Group'' \<noteq> []
      \<and> read_uint ((fresh_state\<lparr>pos := 14\<rparr>)\<lparr>pos := pos (fresh_state\<lparr>pos := 14\<rparr>)
             + bracket_size (fresh_state\<lparr>pos := 14\<rparr>)\<rparr>) = Inr (7, fresh_state\<lparr>pos := 18\<rparr>)
      \<and> objects (fresh_state\<lparr>pos := 18\<rparr>) 7 = None"
    by (simp add: fresh_state_def cached_group_bytes_def rd_eval)
  note t = registration_order [where r = image_head_state and ?r1.0 = "image_head_state\<lparr>pos := 1\<rparr>"
      and ?r2.0 = "image_head_state\<lparr>pos := 15\<rparr>" and uid = 2
      and ?r3.0 = "image_head_state\<lparr>pos := 19\<rparr>" and ro = "readObject 0"
      and s = array_head_state and ?s1.0 = "array_head_state\<lparr>pos := 1\<rparr>" and aid = 9
      and ?s2.0 = "array_head_state\<lparr>pos := 5\<rparr>" and t = 16
      and ?s3.0 = "array_head_state\<lparr>pos := 9\<rparr>"
      and q = fresh_state and className = "''osg::Group''" and ?q1.0 = "fresh_state\<lparr>pos := 14\<rparr>"
      and oid = 7 and ?q2.0 = "fresh_state\<lparr>pos := 18\<rparr>" and fuel = 0]
  have 1: "readImage (readObject 0) image_head_state
     = readImage_payload (readObject 0) 0
         (image_head_state\<lparr>pos := 19, heap := [(default_obj Image)\<lparr>uniqueId := 2\<rparr>],
            images := [2 \<mapsto> 0]\<rparr>)"
    using t [THEN conjunct1] i by (simp add: image_head_state_def new_Reader_def)
  have 2: "ReadArray array_head_state
     = ReadArray_payload 0
         (array_head_state\<lparr>pos := 9, heap := [(default_obj Vec3Array)\<lparr>uniqueId := 9\<rparr>],
            arrays := [9 \<mapsto> 0]\<rparr>)"
    using t [THEN conjunct2, THEN conjunct1] a by (simp add: array_head_state_def new_Reader_def)
  have 3: "readObject 1 fresh_state
     = bnd (dispatch (readObject 0) ''osg::Group'') (\<lambda>object.
         thn ReadEndBracket (thn (register_object 7 object) (ret object)))
         (fresh_state\<lparr>pos := 18\<rparr>)"
    using t [THEN conjunct2, THEN conjunct2] q by simp
  have 4: "case Data_read image_self_reference of
         Inr (Some d) \<Rightarrow> map cls (store d) = [Texture2D, Image, Texture2D]
           \<and> map uniqueId (store d) = [1, 2, 3]
           \<and> image_ref (store d ! 0) = Some 1 \<and> image_ref (store d ! 2) = Some 1
       | _ \<Rightarrow> False"
    by (simp add: image_self_reference_def rd_eval del: readObject.simps)
  from 1 2 3 4 show ?thesis
    by blast
qed

section \<open>The order of the Drawable layer\<close>

text \<open>
  Claim C7, as stated, fails. On eleven bytes without state set, bound and callbacks whose
  three booleans are true, the layer of the source succeeds, reading the bytes at offsets
  4, 5 and 6 as the booleans; in the claimed order the byte at offset 4 is the flag of an
  optional object, and reading that object fails.
\<close>

theorem Drawable_order_counterexample:
  "readObjectFields_Drawable (readObject 1) (default_obj Geometry) drawable_state
     = Inr ((default_obj Geometry)\<lparr>stateSet := None\<rparr>, drawable_state\<lparr>pos := 11\<rparr>)
   \<and> Drawable_layer_as_claimed (readObject 1) (default_obj Geometry) drawable_state
     = Inl (Error 9 ''read beyond data length'')"
  by (simp add: drawable_state_def Drawable_layer_as_claimed_def [THEN fun_cong] rd_eval del: readObject.simps)

text \<open>
  Claim C7, amended. The Drawable layer reads, in this order and each from the state the
  one before it left: the optional state set (the object is cast to StateSet and kept),
  the flag of the initial bound and, when it is set, six doubles, the optional
  compute-bounding-box callback, the optional shape, then the three booleans
  (supportsDisplayList, useDisplayList, useVertexBufferObjects), and only then the optional
  update, event, cull and draw callbacks. The layer succeeds exactly when all these reads
  succeed one after the other; it then ends in the state the last of them left, and the
  object has the state set read first.
\<close>

theorem Drawable_layer_order:
  "readObjectFields_Drawable ro ob r = Inr (ob', r') \<longleftrightarrow>
   (\<exists>p r1 s hasBound r2 r3 cb r4 sh r5 b1 r6 b2 r7 b3 r8 up r9 ev r10 cu r11 dr.
        readObjectIfTrue ro r = Inr (p, r1)
      \<and> dynamic_pointer_cast is_StateSet p r1 = Inr (s, r1)
      \<and> read_bool r1 = Inr (hasBound, r2)
      \<and> (if hasBound then (\<exists>bs. read_bytes (8 * 6) r2 = Inr (bs, r3)) else r3 = r2)
      \<and> readObjectIfTrue ro r3 = Inr (cb, r4)
      \<and> readObjectIfTrue ro r4 = Inr (sh, r5)
      \<and> read_bool r5 = Inr (b1, r6)
      \<and> read_bool r6 = Inr (b2, r7)
      \<and> read_bool r7 = Inr (b3, r8)
      \<and> readObjectIfTrue ro r8 = Inr (up, r9)
      \<and> readObjectIfTrue ro r9 = Inr (ev, r10)
      \<and> readObjectIfTrue ro r10 = Inr (cu, r11)
      \<and> readObjectIfTrue ro r11 = Inr (dr, r')
      \<and> ob' = ob\<lparr>stateSet := s\<rparr>)"
  (is "?L \<longleftrightarrow> ?R")
proof
  assume ?L
  then show ?R
    unfolding readObjectFields_Drawable_def
    apply (elim bnd_InrE thn_InrE ret_InrE)
    apply (erule dynamic_pointer_cast_InrE)
    apply (elim seq_ConsE seq_NilE)
    apply (erule opt_ignore_InrE)
    apply (elim ignore_InrE)
    apply hypsubst
    apply (intro exI conjI)
    apply assumption+
    apply (rule refl)
    done
next
  assume ?R
  then obtain p r1 s hasBound r2 r3 cb r4 sh r5 b1 r6 b2 r7 b3 r8 up r9 ev r10 cu r11 dr
    where steps: "readObjectIfTrue ro r = Inr (p, r1)"
      "dynamic_pointer_cast is_StateSet p r1 = Inr (s, r1)"
      "read_bool r1 = Inr (hasBound, r2)"
      "readObjectIfTrue ro r3 = Inr (cb, r4)"
      "readObjectIfTrue ro r4 = Inr (sh, r5)"
      "read_bool r5 = Inr (b1, r6)"
      "read_bool r6 = Inr (b2, r7)"
      "read_bool r7 = Inr (b3, r8)"
      "readObjectIfTrue ro r8 = Inr (up, r9)"
      "readObjectIfTrue ro r9 = Inr (ev, r10)"
      "readObjectIfTrue ro r10 = Inr (cu, r11)"
      "readObjectIfTrue ro r11 = Inr (dr, r')"
      "ob' = ob\<lparr>stateSet := s\<rparr>"
      and bound: "if hasBound then (\<exists>bs. read_bytes (8 * 6) r2 = Inr (bs, r3)) else r3 = r2"
    by (elim exE conjE)
  show ?L
  proof (cases hasBound)
    case True
    with bound obtain bs where "read_bytes (8 * 6) r2 = Inr (bs, r3)"
      by auto
    with True steps show ?thesis
      by (simp add: readObjectFields_Drawable_def bnd_def thn_def ignore_def ret_def opt_def
          if_then_def)
  next
    case False
    with bound have "r3 = r2"
      by simp
    with False steps show ?thesis
      by (simp add: readObjectFields_Drawable_def bnd_def thn_def ignore_def ret_def opt_def
          if_then_def)
  qed
qed

lemmas stateset_drawable_eval =
  after_stateset_def stateset_drawable_state_def stateset_drawable_def

theorem Drawable_layer_order_witness:
  "readObjectFields_Drawable (readObject 2) (default_obj Geometry) stateset_drawable_state
     = Inr ((default_obj Geometry)\<lparr>stateSet := Some 0\<rparr>, after_stateset\<lparr>pos := 113\<rparr>)"
proof -
  have s1: "readObjectIfTrue (readObject 2) stateset_drawable_state = Inr (Some 0, after_stateset)"
    by (simp add: stateset_drawable_eval rd_eval del: readObject.simps)
  have s2: "dynamic_pointer_cast is_StateSet (Some 0) after_stateset
              = Inr (Some 0, after_stateset)"
    by (simp add: stateset_drawable_eval rd_eval del: readObject.simps)
  have s3: "read_bool after_stateset = Inr (True, after_stateset\<lparr>pos := 56\<rparr>)"
    by (simp add: stateset_drawable_eval rd_eval)
  have s4: "if True
      then (\<exists>bs. read_bytes (8 * 6) (after_stateset\<lparr>pos := 56\<rparr>)
                    = Inr (bs, after_stateset\<lparr>pos := 104\<rparr>))
      else after_stateset\<lparr>pos := 104\<rparr> = after_stateset\<lparr>pos := 56\<rparr>"
    by (simp add: stateset_drawable_eval rd_eval)
  have s5: "readObjectIfTrue (readObject 2) (after_stateset\<lparr>pos := 104\<rparr>)
              = Inr (None, after_stateset\<lparr>pos := 105\<rparr>)"
    by (simp add: stateset_drawable_eval rd_eval del: readObject.simps)
  have s6: "readObjectIfTrue (readObject 2) (after_stateset\<lparr>pos := 105\<rparr>)
              = Inr (None, after_stateset\<lparr>pos := 106\<rparr>)"
    by (simp add: stateset_drawable_eval rd_eval del: readObject.simps)
  have s7: "read_bool (after_stateset\<lparr>pos := 106\<rparr>) = Inr (True, after_stateset\<lparr>pos := 107\<rparr>)"
    by (simp add: stateset_drawable_eval rd_eval)
  have s8: "read_bool (after_stateset\<lparr>pos := 107\<rparr>) = Inr (False, after_stateset\<lparr>pos := 108\<rparr>)"
    by (simp add: stateset_drawable_eval rd_eval)
  have s9: "read_bool (after_stateset\<lparr>pos := 108\<rparr>) = Inr (True, after_stateset\<lparr>pos := 109\<rparr>)"
    by (simp add: stateset_drawable_eval rd_eval)
  have s10: "readObjectIfTrue (readObject 2) (after_stateset\<lparr>pos := 109\<rparr>)
              = Inr (None, after_stateset\<lparr>pos := 110\<rparr>)"
    by (simp add: stateset_drawable_eval rd_eval del: readObject.simps)
  have s11: "readObjectIfTrue (readObject 2) (after_stateset\<lparr>pos := 110\<rparr>)
              = Inr (None, after_stateset\<lparr>pos := 111\<rparr>)"
    by (simp add: stateset_drawable_eval rd_eval del: readObject.simps)
  have s12: "readObjectIfTrue (readObject 2) (after_stateset\<lparr>pos := 111\<rparr>)
              = Inr (None, after_stateset\<lparr>pos := 112\<rparr>)"
    by (simp add: stateset_drawable_eval rd_eval del: readObject.simps)
  have s13: "readObjectIfTrue (readObject 2) (after_stateset\<lparr>pos := 112\<rparr>)
              = Inr (None, after_stateset\<lparr>pos := 113\<rparr>)"
    by (simp add: stateset_drawable_eval rd_eval del: readObject.simps)
  show ?thesis
    apply (rule Drawable_layer_order [THEN iffD2])
    apply (intro exI conjI)
    apply (rule s1)
    apply (rule s2)
    apply (rule s3)
    apply (rule s4)
    apply (rule s5)
    apply (rule s6)
    apply (rule s7)
    apply (rule s8)
    apply (rule s9)
    apply (rule s10)
    apply (rule s11)
    apply (rule s12)
    apply (rule s13)
    apply (rule refl)
    done
qed

section \<open>Payload slices\<close>

text \<open>
  Claim C4 does not hold for the arrays of the inline array reader. \<open>ReadArray\<close> skips
  \<^verbatim>\<open>elementCount * arr->elementSize\<close> bytes, a product of two \<^verbatim>\<open>unsigned int\<close>s: for \<open>2 ^ 29\<close>
  elements of 8 bytes it is 0. The 100 bytes of \<open>overflow_geometry\<close> parse, and the vertex
  data of the root is an array of 536870912 elements of 8 bytes whose element data start
  at offset 84 of the buffer: the slice of \<open>elementCount * elementSize\<close> bytes does not lie
  within the input.
\<close>

theorem inline_array_slice_exceeds_buffer:
  "length overflow_geometry = 100
   \<and> (case Data_read overflow_geometry of
         Inr (Some d) \<Rightarrow> rootObject d = Some 0 \<and> cls (store d ! 0) = Geometry
           \<and> vertexData (geometry (store d ! 0)) = Some 1
           \<and> cls (store d ! 1) = Vec2Array
           \<and> elementCount (array (store d ! 1)) = 536870912
           \<and> elementSize (array (store d ! 1)) = 8
           \<and> elementData (array (store d ! 1)) = Some 84
       | _ \<Rightarrow> False)"
  by (simp add: overflow_geometry_def rd_eval del: readObject.simps)

section \<open>Children and drawables\<close>

lemma children_update_at:
  "x\<lparr>children := (children x)[i := c]\<rparr> = children_update (\<lambda>xs. xs[i := c]) x"
  by (cases x) simp

lemma drawables_update_at:
  "x\<lparr>drawables := (drawables x)[i := c]\<rparr> = drawables_update (\<lambda>xs. xs[i := c]) x"
  by (cases x) simp

lemma children_loop:
  "for_acc n (\<lambda>i ob. bnd ro (\<lambda>p. bnd (dynamic_pointer_cast is_T p) (\<lambda>c.
       ret (ob\<lparr>children := (children ob)[i := c]\<rparr>)))) ob
   = bnd (read_n (read_classified ro) n) (\<lambda>ps.
       ret (children_update (upd_from 0 (\<lambda>v _. v) (map (keep_if is_T) ps)) ob))"
proof -
  have "for_acc_from n 0 (\<lambda>i ob. bnd ro (\<lambda>p. bnd (dynamic_pointer_cast is_T p) (\<lambda>c.
       ret (ob\<lparr>children := (children ob)[i := c]\<rparr>)))) ob
     = bnd (read_n (bnd ro (dynamic_pointer_cast is_T)) n) (\<lambda>vs.
         ret (children_update (upd_from 0 (\<lambda>v _. v) vs) ob))"
    by (rule for_acc_from_index) (simp_all add: bnd_assoc children_update_at)
  then show ?thesis
    by (simp add: for_acc_def read_n_cast bnd_assoc bnd_ret_left)
qed

lemma drawables_loop:
  "for_acc n (\<lambda>i ob. bnd ro (\<lambda>p. bnd (dynamic_pointer_cast is_T p) (\<lambda>c.
       ret (ob\<lparr>drawables := (drawables ob)[i := c]\<rparr>)))) ob
   = bnd (read_n (read_classified ro) n) (\<lambda>ps.
       ret (drawables_update (upd_from 0 (\<lambda>v _. v) (map (keep_if is_T) ps)) ob))"
proof -
  have "for_acc_from n 0 (\<lambda>i ob. bnd ro (\<lambda>p. bnd (dynamic_pointer_cast is_T p) (\<lambda>c.
       ret (ob\<lparr>drawables := (drawables ob)[i := c]\<rparr>)))) ob
     = bnd (read_n (bnd ro (dynamic_pointer_cast is_T)) n) (\<lambda>vs.
         ret (drawables_update (upd_from 0 (\<lambda>v _. v) vs) ob))"
    by (rule for_acc_from_index) (simp_all add: bnd_assoc drawables_update_at)
  then show ?thesis
    by (simp add: for_acc_def read_n_cast bnd_assoc bnd_ret_left)
qed

lemma read_Children_result:
  assumes "read_Children ro ob r = Inr (ob', r')"
  shows "\<exists>n r2 ps. read_uint r = Inr (n, r2)
           \<and> read_n (read_classified ro) n (r2\<lparr>pos := pos r2 + bracket_size r2\<rparr>) = Inr (ps, r')
           \<and> ob' = ob\<lparr>children := map (keep_if is_Node) ps\<rparr> \<and> length ps = n"
proof -
  from assms have "bnd read_uint (\<lambda>n. bnd ReadBeginBracket (\<lambda>_.
       bnd (read_n (read_classified ro) n) (\<lambda>ps.
          ret (ob\<lparr>children := upd_from 0 (\<lambda>v _. v) (map (keep_if is_Node) ps)
                 (resize n None (children ob))\<rparr>)))) r = Inr (ob', r')"
    unfolding read_Children_def children_loop
    by (simp add: bnd_assoc bnd_ret_left thn_def ReadEndBracket_def comp_def)
  then obtain n r2 ps where n: "read_uint r = Inr (n, r2)"
    and ps: "read_n (read_classified ro) n (r2\<lparr>pos := pos r2 + bracket_size r2\<rparr>)
        = Inr (ps, r')"
    and ob': "ob' = ob\<lparr>children := upd_from 0 (\<lambda>v _. v) (map (keep_if is_Node) ps)
                 (resize n None (children ob))\<rparr>"
    by (auto elim!: bnd_InrE simp: ReadBeginBracket_eq ret_def)
  have len: "length ps = n"
    using ps by (rule read_n_length)
  then have "upd_from 0 (\<lambda>v _. v) (map (keep_if is_Node) ps) (resize n None (children ob))
      = map (keep_if is_Node) ps"
    by (simp add: upd_from_all length_resize)
  with n ps ob' len show ?thesis
    by auto
qed

lemma readObjectFields_Geode_result:
  assumes "readObjectFields_Geode ro ob r = Inr (ob', r')" and "read_bool r = Inr (True, r1)"
  shows "\<exists>n r2 ps. read_uint r1 = Inr (n, r2)
           \<and> read_n (read_classified ro) n (r2\<lparr>pos := pos r2 + bracket_size r2\<rparr>) = Inr (ps, r')
           \<and> ob' = ob\<lparr>drawables := map (keep_if is_Drawable) ps\<rparr> \<and> length ps = n"
proof -
  from assms have "bnd read_uint (\<lambda>n. bnd ReadBeginBracket (\<lambda>_.
       bnd (read_n (read_classified ro) n) (\<lambda>ps.
          ret (ob\<lparr>drawables := upd_from 0 (\<lambda>v _. v) (map (keep_if is_Drawable) ps)
                 (resize n None (drawables ob))\<rparr>)))) r1 = Inr (ob', r')"
    unfolding readObjectFields_Geode_def drawables_loop
    by (simp add: opt_block_def bnd_def [of read_bool] bnd_assoc bnd_ret_left thn_def
        ReadEndBracket_def comp_def)
  then obtain n r2 ps where n: "read_uint r1 = Inr (n, r2)"
    and ps: "read_n (read_classified ro) n (r2\<lparr>pos := pos r2 + bracket_size r2\<rparr>)
        = Inr (ps, r')"
    and ob': "ob' = ob\<lparr>drawables := upd_from 0 (\<lambda>v _. v) (map (keep_if is_Drawable) ps)
                 (resize n None (drawables ob))\<rparr>"
    by (auto elim!: bnd_InrE simp: ReadBeginBracket_eq ret_def)
  have len: "length ps = n"
    using ps by (rule read_n_length)
  then have "upd_from 0 (\<lambda>v _. v) (map (keep_if is_Drawable) ps) (resize n None (drawables ob))
      = map (keep_if is_Drawable) ps"
    by (simp add: upd_from_all length_resize)
  with n ps ob' len show ?thesis
    by auto
qed

text \<open>
  Claim C9. The children block of the Group layer and of the PagedLOD layer (the same
  block, \<open>read_Children\<close>, which is the whole Group layer and the end of the PagedLOD
  layer) and the drawables block of the Geode layer, when their flag is set, read the count
  \<open>n\<close> and then exactly \<open>n\<close> objects with the dispatcher, one after the other, whatever
  their classes are: the reader ends in the state in which reading \<open>n\<close> objects ends. The
  sequence has the length \<open>n\<close>; its \<open>i\<close>-th entry is the \<open>i\<close>-th object read if that is a
  Node (a Drawable), and null otherwise. When the flag is not set, the object is unchanged.
\<close>

theorem children_sequences:
  "(opt_block (read_Children ro) ob r = Inr (ob', r') \<longrightarrow>
      (\<exists>b r1. read_bool r = Inr (b, r1)
         \<and> (if b then \<exists>n r2 ps. read_uint r1 = Inr (n, r2)
                 \<and> read_n (read_classified ro) n (r2\<lparr>pos := pos r2 + bracket_size r2\<rparr>) = Inr (ps, r')
                 \<and> length ps = n \<and> length (children ob') = n
                 \<and> ob' = ob\<lparr>children := map (keep_if is_Node) ps\<rparr>
             else ob' = ob \<and> r' = r1)))
   \<and> readObjectFields_Group ro = opt_block (read_Children ro)
   \<and> (readObjectFields_PagedLOD ro pb q = Inr (pb', q') \<longrightarrow>
        (\<exists>pb0 q0. opt_block (read_Children ro) pb0 q0 = Inr (pb', q')))
   \<and> (readObjectFields_Geode ro gb s = Inr (gb', s') \<longrightarrow>
      (\<exists>b s1. read_bool s = Inr (b, s1)
         \<and> (if b then \<exists>n s2 ps. read_uint s1 = Inr (n, s2)
                 \<and> read_n (read_classified ro) n (s2\<lparr>pos := pos s2 + bracket_size s2\<rparr>) = Inr (ps, s')
                 \<and> length ps = n \<and> length (drawables gb') = n
                 \<and> gb' = gb\<lparr>drawables := map (keep_if is_Drawable) ps\<rparr>
             else gb' = gb \<and> s' = s1)))"
proof -
  have A: "\<exists>b r1. read_bool r = Inr (b, r1)
         \<and> (if b then \<exists>n r2 ps. read_uint r1 = Inr (n, r2)
                 \<and> read_n (read_classified ro) n (r2\<lparr>pos := pos r2 + bracket_size r2\<rparr>) = Inr (ps, r')
                 \<and> length ps = n \<and> length (children ob') = n
                 \<and> ob' = ob\<lparr>children := map (keep_if is_Node) ps\<rparr>
             else ob' = ob \<and> r' = r1)"
    if "opt_block (read_Children ro) ob r = Inr (ob', r')"
    using that
  proof (cases rule: opt_block_cases)
    case (1 r1)
    from read_Children_result [OF 1(2)] 1(1) show ?thesis
      by auto
  next
    case 2
    then show ?thesis by auto
  qed
  have B: "readObjectFields_Group ro = opt_block (read_Children ro)"
    by (rule ext) (simp add: readObjectFields_Group_def)
  have C: "\<exists>pb0 q0. opt_block (read_Children ro) pb0 q0 = Inr (pb', q')"
    if "readObjectFields_PagedLOD ro pb q = Inr (pb', q')"
    using that unfolding readObjectFields_PagedLOD_def
    by (auto elim!: bnd_InrE thn_InrE)
  have D: "\<exists>b s1. read_bool s = Inr (b, s1)
         \<and> (if b then \<exists>n s2 ps. read_uint s1 = Inr (n, s2)
                 \<and> read_n (read_classified ro) n (s2\<lparr>pos := pos s2 + bracket_size s2\<rparr>) = Inr (ps, s')
                 \<and> length ps = n \<and> length (drawables gb') = n
                 \<and> gb' = gb\<lparr>drawables := map (keep_if is_Drawable) ps\<rparr>
             else gb' = gb \<and> s' = s1)"
    if g: "readObjectFields_Geode ro gb s = Inr (gb', s')"
  proof -
    from g obtain b s1 where b: "read_bool s = Inr (b, s1)"
      unfolding readObjectFields_Geode_def opt_block_def by (auto elim!: bnd_InrE)
    show ?thesis
    proof (cases b)
      case True
      with readObjectFields_Geode_result [OF g] b show ?thesis
        by auto
    next
      case False
      with g b show ?thesis
        by (auto simp: readObjectFields_Geode_def opt_block_def bnd_def ret_def)
    qed
  qed
  from A B C D show ?thesis
    by blast
qed

theorem children_sequences_witness:
  "(\<exists>ps r'. read_n (read_classified (readObject 2)) 2 (group_layer_state\<lparr>pos := 68\<rparr>) = Inr (ps, r')
        \<and> map (keep_if is_Node) ps = [Some 1, None])
   \<and> (case Data_read mixed_children of
         Inr (Some d) \<Rightarrow> map cls (store d) = [Group, Group, DrawElementsUInt]
           \<and> children (store d ! 0) = [Some 1, None]
       | _ \<Rightarrow> False)"
proof -
  have "case readObjectFields_Group (readObject 2) (default_obj Group) group_layer_state of
          Inr (ob1, rF) \<Rightarrow> children ob1 = [Some 1, None] | Inl e \<Rightarrow> False"
    by (simp add: mixed_children_def group_layer_state_def rd_eval del: readObject.simps)
  then obtain ob1 rF where
      E: "readObjectFields_Group (readObject 2) (default_obj Group) group_layer_state = Inr (ob1, rF)"
    and c: "children ob1 = [Some 1, None]"
    by (auto split: sum.splits)
  have b: "read_bool group_layer_state = Inr (True, group_layer_state\<lparr>pos := 64\<rparr>)"
    by (simp add: mixed_children_def group_layer_state_def rd_eval)
  have n: "read_uint (group_layer_state\<lparr>pos := 64\<rparr>) = Inr (2, group_layer_state\<lparr>pos := 68\<rparr>)"
    by (simp add: mixed_children_def group_layer_state_def rd_eval)
  have z: "bracket_size (group_layer_state\<lparr>pos := 68\<rparr>) = 0"
    by (simp add: group_layer_state_def bracket_size_def new_Reader_def)
  from E have "opt_block (read_Children (readObject 2)) (default_obj Group) group_layer_state
      = Inr (ob1, rF)"
    by (simp add: children_sequences [THEN conjunct2, THEN conjunct1])
  from children_sequences [THEN conjunct1, THEN mp, OF this] b n z c
  have "\<exists>ps. read_n (read_classified (readObject 2)) 2 (group_layer_state\<lparr>pos := 68\<rparr>) = Inr (ps, rF)
        \<and> map (keep_if is_Node) ps = [Some 1, None]"
    by auto
  then have 1: "\<exists>ps r'. read_n (read_classified (readObject 2)) 2 (group_layer_state\<lparr>pos := 68\<rparr>)
          = Inr (ps, r') \<and> map (keep_if is_Node) ps = [Some 1, None]"
    by (elim exE) (intro exI)
  have 2: "case Data_read mixed_children of
         Inr (Some d) \<Rightarrow> map cls (store d) = [Group, Group, DrawElementsUInt]
           \<and> children (store d ! 0) = [Some 1, None]
       | _ \<Rightarrow> False"
    by (simp add: mixed_children_def rd_eval del: readObject.simps)
  from 1 2 show ?thesis
    by (rule conjI)
qed

section \<open>The RangeDataList of a PagedLOD\<close>

lemma rangeDataList_filename_at:
  "x\<lparr>rangeDataList := (rangeDataList x)[i := (rangeDataList x ! i)\<lparr>filename := s\<rparr>]\<rparr>
     = rangeDataList_update (\<lambda>xs. xs[i := (xs ! i)\<lparr>filename := s\<rparr>]) x"
  by (cases x) simp

lemma rangeDataList_priority_at:
  "x\<lparr>rangeDataList := (rangeDataList x)[i := (rangeDataList x ! i)
        \<lparr>priorityOffset := po, priorityScale := ps\<rparr>]\<rparr>
     = rangeDataList_update (\<lambda>xs. xs[i := (xs ! i)\<lparr>priorityOffset := po, priorityScale := ps\<rparr>]) x"
  by (cases x) simp

lemma filename_loop:
  "for_acc n (\<lambda>i ob. bnd read_string (\<lambda>s.
       ret (ob\<lparr>rangeDataList := (rangeDataList ob)[i := (rangeDataList ob ! i)\<lparr>filename := s\<rparr>]\<rparr>))) ob
   = bnd (read_n read_string n) (\<lambda>names.
       ret (rangeDataList_update (upd_from 0 (\<lambda>s x. x\<lparr>filename := s\<rparr>) names) ob))"
  unfolding for_acc_def
  by (rule for_acc_from_index) (simp_all add: rangeDataList_filename_at)

lemma priority_loop:
  "for_acc n (\<lambda>i ob. bnd read_float (\<lambda>po. bnd read_float (\<lambda>ps.
       ret (ob\<lparr>rangeDataList := (rangeDataList ob)[i := (rangeDataList ob ! i)
              \<lparr>priorityOffset := po, priorityScale := ps\<rparr>]\<rparr>)))) ob
   = bnd (read_n read_float_pair n) (\<lambda>prios.
       ret (rangeDataList_update
             (upd_from 0 (\<lambda>p x. x\<lparr>priorityOffset := fst p, priorityScale := snd p\<rparr>) prios) ob))"
  unfolding for_acc_def
  by (rule for_acc_from_index)
     (simp_all add: rangeDataList_priority_at read_float_pair_def bnd_assoc bnd_ret_left)

lemma expanded_list:
  fixes xs :: "RangeData list"
  assumes "length names = fsize" and "length prios = psize" and "fsize < psize"
  defines "zs \<equiv> upd_from 0 (\<lambda>p x. x\<lparr>priorityOffset := fst p, priorityScale := snd p\<rparr>) prios
                  (resize psize default_RangeData
                    (upd_from 0 (\<lambda>s x. x\<lparr>filename := s\<rparr>) names
                      (resize fsize default_RangeData xs)))"
  shows "length zs = psize"
    and "map filename zs = names @ replicate (psize - fsize) []"
    and "map priorityOffset zs = map fst prios"
    and "map priorityScale zs = map snd prios"
proof -
  show len: "length zs = psize"
    by (simp add: zs_def length_upd_from length_resize)
  show "map filename zs = names @ replicate (psize - fsize) []"
    using assms(1-3)
    by (intro nth_equalityI)
       (auto simp: zs_def length_upd_from length_resize nth_upd_from nth_resize nth_append
          default_RangeData_def)
  show "map priorityOffset zs = map fst prios"
    using assms(1-3)
    by (intro nth_equalityI)
       (auto simp: zs_def length_upd_from length_resize nth_upd_from nth_resize)
  show "map priorityScale zs = map snd prios"
    using assms(1-3)
    by (intro nth_equalityI)
       (auto simp: zs_def length_upd_from length_resize nth_upd_from nth_resize)
qed

text \<open>
  Claim C6. The RangeDataList block of the PagedLOD layer reads \<open>fsize\<close>, then \<open>fsize\<close>
  file names, then \<open>psize\<close>, then \<open>psize\<close> pairs of priority offset and priority scale. When
  \<open>psize > fsize\<close>, the resulting \<open>rangeDataList\<close> has \<open>psize\<close> entries, its first \<open>fsize\<close>
  entries carry the file names read, the other entries have empty file names, and the
  entries carry, in order, the \<open>psize\<close> priority pairs read.
\<close>

theorem RangeDataList_expansion:
  assumes "read_RangeDataList ob r = Inr (ob', r')"
  shows "\<exists>fsize r1 names r2 psize r3 prios.
      read_uint r = Inr (fsize, r1)
    \<and> read_n read_string fsize (r1\<lparr>pos := pos r1 + bracket_size r1\<rparr>) = Inr (names, r2)
    \<and> read_uint r2 = Inr (psize, r3)
    \<and> read_n read_float_pair psize (r3\<lparr>pos := pos r3 + bracket_size r3\<rparr>) = Inr (prios, r')
    \<and> (fsize < psize \<longrightarrow>
         length (rangeDataList ob') = psize
       \<and> map filename (rangeDataList ob') = names @ replicate (psize - fsize) []
       \<and> map priorityOffset (rangeDataList ob') = map fst prios
       \<and> map priorityScale (rangeDataList ob') = map snd prios)"
proof -
  let ?fn = "\<lambda>s x. x\<lparr>filename := s\<rparr>"
  let ?pr = "\<lambda>p x. x\<lparr>priorityOffset := fst p, priorityScale := snd p\<rparr>"
  define o1 where "o1 names fsize = rangeDataList_update (upd_from 0 ?fn names)
      (ob\<lparr>rangeDataList := resize fsize default_RangeData (rangeDataList ob)\<rparr>)" for names fsize
  from assms obtain fsize r1 names r2 psize r3 prios where
      1: "read_uint r = Inr (fsize, r1)"
    and 2: "read_n read_string fsize (r1\<lparr>pos := pos r1 + bracket_size r1\<rparr>) = Inr (names, r2)"
    and 3: "read_uint r2 = Inr (psize, r3)"
    and 4: "read_n read_float_pair psize (r3\<lparr>pos := pos r3 + bracket_size r3\<rparr>) = Inr (prios, r')"
    and 5: "ob' = rangeDataList_update (upd_from 0 ?pr prios)
        (if psize > fsize
         then (o1 names fsize)\<lparr>rangeDataList :=
                resize psize default_RangeData (rangeDataList (o1 names fsize))\<rparr>
         else o1 names fsize)"
    unfolding read_RangeDataList_def filename_loop priority_loop o1_def
    by (auto elim!: bnd_InrE thn_InrE simp: ReadBeginBracket_eq ret_def ReadEndBracket_def)
  have ln: "length names = fsize"
    using 2 by (rule read_n_length)
  have lp: "length prios = psize"
    using 4 by (rule read_n_length)
  have "fsize < psize \<longrightarrow>
         length (rangeDataList ob') = psize
       \<and> map filename (rangeDataList ob') = names @ replicate (psize - fsize) []
       \<and> map priorityOffset (rangeDataList ob') = map fst prios
       \<and> map priorityScale (rangeDataList ob') = map snd prios"
    using expanded_list [OF ln lp, of "rangeDataList ob"] by (simp add: 5 o1_def)
  with 1 2 3 4 show ?thesis
    by blast
qed

theorem RangeDataList_expansion_witness:
  "(case read_RangeDataList (default_obj PagedLOD) rdl_state of
      Inr (ob', r') \<Rightarrow> length (rangeDataList ob') = 3
        \<and> map filename (rangeDataList ob') = [''a.osgb'', ''b.osgb'', []]
        \<and> map priorityOffset (rangeDataList ob') = [0, 1056964608, 1048576000]
        \<and> map priorityScale (rangeDataList ob') = [1065353216, 1069547520, 1067450368]
    | Inl e \<Rightarrow> False)
   \<and> (case Data_read pagedlod_scene of
         Inr (Some d) \<Rightarrow> cls (store d ! 0) = PagedLOD
           \<and> length (rangeDataList (store d ! 0)) = 3
           \<and> filename (rangeDataList (store d ! 0) ! 2) = []
           \<and> priorityOffset (rangeDataList (store d ! 0) ! 2) = 1048576000
       | _ \<Rightarrow> False)"
proof -
  have "\<exists>ob1 rF. read_RangeDataList (default_obj PagedLOD) rdl_state = Inr (ob1, rF)"
    by (simp add: rdl_bytes_def rdl_state_def rd_eval)
  then obtain ob1 rF where
      E: "read_RangeDataList (default_obj PagedLOD) rdl_state = Inr (ob1, rF)"
    by blast
  have f: "read_uint rdl_state = Inr (2, rdl_state\<lparr>pos := 4\<rparr>)"
    by (simp add: rdl_bytes_def rdl_state_def rd_eval)
  have nm: "read_n read_string 2 (rdl_state\<lparr>pos := 4\<rparr>)
      = Inr ([''a.osgb'', ''b.osgb''], rdl_state\<lparr>pos := 24\<rparr>)"
    by (simp add: rdl_bytes_def rdl_state_def rd_eval read_n_eval del: read_n.simps)
  have p: "read_uint (rdl_state\<lparr>pos := 24\<rparr>) = Inr (3, rdl_state\<lparr>pos := 28\<rparr>)"
    by (simp add: rdl_bytes_def rdl_state_def rd_eval)
  have pr: "read_n read_float_pair 3 (rdl_state\<lparr>pos := 28\<rparr>)
      = Inr ([(0, 1065353216), (1056964608, 1069547520), (1048576000, 1067450368)],
             rdl_state\<lparr>pos := 52\<rparr>)"
    by (simp add: rdl_bytes_def rdl_state_def rd_eval read_n_eval read_float_pair_def [THEN fun_cong]
        del: read_n.simps)
  have z: "bracket_size (rdl_state\<lparr>pos := 4\<rparr>) = 0" "bracket_size (rdl_state\<lparr>pos := 28\<rparr>) = 0"
    by (simp_all add: rdl_state_def bracket_size_def new_Reader_def)
  from RangeDataList_expansion [OF E] obtain fsize r1 names r2 psize r3 prios where
      e1: "read_uint rdl_state = Inr (fsize, r1)"
    and e2: "read_n read_string fsize (r1\<lparr>pos := pos r1 + bracket_size r1\<rparr>) = Inr (names, r2)"
    and e3: "read_uint r2 = Inr (psize, r3)"
    and e4: "read_n read_float_pair psize (r3\<lparr>pos := pos r3 + bracket_size r3\<rparr>) = Inr (prios, rF)"
    and e5: "fsize < psize \<longrightarrow>
         length (rangeDataList ob1) = psize
       \<and> map filename (rangeDataList ob1) = names @ replicate (psize - fsize) []
       \<and> map priorityOffset (rangeDataList ob1) = map fst prios
       \<and> map priorityScale (rangeDataList ob1) = map snd prios"
    by blast
  from e1 f have v1: "fsize = 2" "r1 = rdl_state\<lparr>pos := 4\<rparr>"
    by simp_all
  from e2 nm z have v2: "names = [''a.osgb'', ''b.osgb'']" "r2 = rdl_state\<lparr>pos := 24\<rparr>"
    by (simp_all add: v1)
  from e3 p have v3: "psize = 3" "r3 = rdl_state\<lparr>pos := 28\<rparr>"
    by (simp_all add: v2)
  from e4 pr z have v4: "prios = [(0, 1065353216), (1056964608, 1069547520), (1048576000, 1067450368)]"
    by (simp add: v3)
  from e5 have "length (rangeDataList ob1) = 3
        \<and> map filename (rangeDataList ob1) = [''a.osgb'', ''b.osgb'', []]
        \<and> map priorityOffset (rangeDataList ob1) = [0, 1056964608, 1048576000]
        \<and> map priorityScale (rangeDataList ob1) = [1065353216, 1069547520, 1067450368]"
    by (simp add: v1 v2 v3 v4)
  with E have 1: "case read_RangeDataList (default_obj PagedLOD) rdl_state of
      Inr (ob', r') \<Rightarrow> length (rangeDataList ob') = 3
        \<and> map filename (rangeDataList ob') = [''a.osgb'', ''b.osgb'', []]
        \<and> map priorityOffset (rangeDataList ob') = [0, 1056964608, 1048576000]
        \<and> map priorityScale (rangeDataList ob') = [1065353216, 1069547520, 1067450368]
    | Inl e \<Rightarrow> False"
    by simp
  have 2: "case Data_read pagedlod_scene of
         Inr (Some d) \<Rightarrow> cls (store d ! 0) = PagedLOD
           \<and> length (rangeDataList (store d ! 0)) = 3
           \<and> filename (rangeDataList (store d ! 0) ! 2) = []
           \<and> priorityOffset (rangeDataList (store d ! 0) ! 2) = 1048576000
       | _ \<Rightarrow> False"
    by (simp add: pagedlod_scene_def rd_eval default_RangeData_def del: readObject.simps)
  from 1 2 show ?thesis
    by (rule conjI)
qed

section \<open>The recursion bound of the model decides no outcome\<close>

text \<open>
  The bound on which \<open>readObject\<close> recurses is a device of the model; the program recurses
  on the machine stack. This section shows that the bound \<open>Data_read\<close> starts with is never
  exhausted and that a larger one gives the same outcome, so that the outcomes of
  \<open>Data_read\<close> are those of the readers alone. What the machine does when its stack or its
  memory is exhausted is outside the model.
\<close>

subsection \<open>A larger bound changes no outcome\<close>

lemma fuel_le_refl [fuel_intros]: "fuel_le f f"
  by (simp add: fuel_le_def)

lemma fuel_le_trans: "fuel_le f g \<Longrightarrow> fuel_le g h \<Longrightarrow> fuel_le f h"
  unfolding fuel_le_def by metis

lemma fuel_le_bnd [fuel_intros]:
  assumes "fuel_le f f'" and "\<And>x. fuel_le (g x) (g' x)"
  shows "fuel_le (bnd f g) (bnd f' g')"
  unfolding fuel_le_def
proof
  fix r
  from assms(1) have f: "f r = Inl OutOfFuel \<or> f' r = f r"
    by (simp add: fuel_le_def)
  show "bnd f g r = Inl OutOfFuel \<or> bnd f' g' r = bnd f g r"
  proof (cases "f r")
    case (Inl e)
    with f show ?thesis
      by (auto simp: bnd_def)
  next
    case (Inr p)
    obtain x r1 where p: "p = (x, r1)"
      by (cases p)
    from assms(2) [of x] have "g x r1 = Inl OutOfFuel \<or> g' x r1 = g x r1"
      by (simp add: fuel_le_def)
    with f Inr p show ?thesis
      by (auto simp: bnd_def)
  qed
qed

lemma fuel_le_thn [fuel_intros]:
  "fuel_le f f' \<Longrightarrow> fuel_le g g' \<Longrightarrow> fuel_le (thn f g) (thn f' g')"
  unfolding thn_def by (intro fuel_intros)

lemma fuel_le_ignore [fuel_intros]: "fuel_le f f' \<Longrightarrow> fuel_le (ignore f) (ignore f')"
  unfolding ignore_def by (intro fuel_intros)

lemma fuel_le_if [fuel_intros]:
  "fuel_le f f' \<Longrightarrow> fuel_le g g' \<Longrightarrow> fuel_le (if c then f else g) (if c then f' else g')"
  by simp

lemma fuel_le_if_then [fuel_intros]: "fuel_le f f' \<Longrightarrow> fuel_le (if_then c f) (if_then c f')"
  unfolding if_then_def by (intro fuel_intros)

lemma fuel_le_case_option [fuel_intros]:
  "fuel_le f f' \<Longrightarrow> (\<And>a. fuel_le (g a) (g' a)) \<Longrightarrow>
   fuel_le (case p of None \<Rightarrow> f | Some a \<Rightarrow> g a) (case p of None \<Rightarrow> f' | Some a \<Rightarrow> g' a)"
  by (cases p) simp_all

lemma fuel_le_opt [fuel_intros]: "fuel_le f f' \<Longrightarrow> fuel_le (opt f) (opt f')"
  unfolding opt_def by (intro fuel_intros)

lemma fuel_le_opt_block [fuel_intros]:
  "(\<And>x. fuel_le (f x) (f' x)) \<Longrightarrow> fuel_le (opt_block f x) (opt_block f' x)"
  unfolding opt_block_def by (intro fuel_intros)

lemma fuel_le_seq_Cons [fuel_intros]:
  "fuel_le f f' \<Longrightarrow> fuel_le (seq fs) (seq fs') \<Longrightarrow> fuel_le (seq (f # fs)) (seq (f' # fs'))"
  by (simp add: fuel_le_thn)

lemma fuel_le_chain_Cons [fuel_intros]:
  "(\<And>x. fuel_le (f x) (f' x)) \<Longrightarrow> (\<And>x. fuel_le (chain fs x) (chain fs' x)) \<Longrightarrow>
   fuel_le (chain (f # fs) x) (chain (f' # fs') x)"
  by (simp add: fuel_le_bnd)

lemma fuel_le_for_from:
  "(\<And>i. fuel_le (body i) (body' i)) \<Longrightarrow> fuel_le (for_from k i body) (for_from k i body')"
  by (induction k arbitrary: i) (simp_all add: fuel_le_refl fuel_le_thn)

lemma fuel_le_for_loop [fuel_intros]:
  "(\<And>i. fuel_le (body i) (body' i)) \<Longrightarrow> fuel_le (for_loop n body) (for_loop n body')"
  unfolding for_loop_def by (rule fuel_le_for_from)

lemma fuel_le_for_acc_from:
  "(\<And>i x. fuel_le (body i x) (body' i x)) \<Longrightarrow>
   fuel_le (for_acc_from k i body x) (for_acc_from k i body' x)"
  by (induction k arbitrary: i x) (simp_all add: fuel_le_refl fuel_le_bnd)

lemma fuel_le_for_acc [fuel_intros]:
  "(\<And>i x. fuel_le (body i x) (body' i x)) \<Longrightarrow>
   fuel_le (for_acc n body x) (for_acc n body' x)"
  unfolding for_acc_def by (rule fuel_le_for_acc_from)

lemma fuel_le_construct [fuel_intros]:
  "(\<And>x. fuel_le (chain fs x) (chain fs' x)) \<Longrightarrow> fuel_le (construct c fs) (construct c fs')"
  unfolding construct_def by (intro fuel_intros)

lemma readObjectIfTrue_fuel [fuel_intros]:
  assumes "fuel_le ro ro'"
  shows "fuel_le (readObjectIfTrue ro) (readObjectIfTrue ro')"
  unfolding readObjectIfTrue_def by (intro fuel_intros assms)

lemma readObjectFields_Object_fuel [fuel_intros]:
  assumes "fuel_le ro ro'"
  shows "fuel_le (readObjectFields_Object ro ob) (readObjectFields_Object ro' ob)"
  unfolding readObjectFields_Object_def by (intro fuel_intros assms)

lemma readObjectFields_Node_fuel [fuel_intros]:
  assumes "fuel_le ro ro'"
  shows "fuel_le (readObjectFields_Node ro ob) (readObjectFields_Node ro' ob)"
  unfolding readObjectFields_Node_def by (intro fuel_intros assms)

lemma read_Children_fuel [fuel_intros]:
  assumes "fuel_le ro ro'"
  shows "fuel_le (read_Children ro ob) (read_Children ro' ob)"
  unfolding read_Children_def by (intro fuel_intros assms)

lemma readObjectFields_Group_fuel [fuel_intros]:
  assumes "fuel_le ro ro'"
  shows "fuel_le (readObjectFields_Group ro ob) (readObjectFields_Group ro' ob)"
  unfolding readObjectFields_Group_def by (intro fuel_intros assms)

lemma readObjectFields_PagedLOD_fuel [fuel_intros]:
  assumes "fuel_le ro ro'"
  shows "fuel_le (readObjectFields_PagedLOD ro ob) (readObjectFields_PagedLOD ro' ob)"
  unfolding readObjectFields_PagedLOD_def by (intro fuel_intros assms)

lemma readObjectFields_Geode_fuel [fuel_intros]:
  assumes "fuel_le ro ro'"
  shows "fuel_le (readObjectFields_Geode ro ob) (readObjectFields_Geode ro' ob)"
  unfolding readObjectFields_Geode_def by (intro fuel_intros assms)

lemma readObjectFields_Drawable_fuel [fuel_intros]:
  assumes "fuel_le ro ro'"
  shows "fuel_le (readObjectFields_Drawable ro ob) (readObjectFields_Drawable ro' ob)"
  unfolding readObjectFields_Drawable_def by (intro fuel_intros assms)

lemma readImage_payload_fuel [fuel_intros]:
  assumes "fuel_le ro ro'"
  shows "fuel_le (readImage_payload ro img) (readImage_payload ro' img)"
  unfolding readImage_payload_def by (intro fuel_intros assms)

lemma readImage_fuel [fuel_intros]:
  assumes "fuel_le ro ro'"
  shows "fuel_le (readImage ro) (readImage ro')"
  unfolding readImage_def by (intro fuel_intros assms)

lemma read_PrimitiveSets_fuel [fuel_intros]:
  assumes "fuel_le ro ro'"
  shows "fuel_le (read_PrimitiveSets ro n ob) (read_PrimitiveSets ro' n ob)"
  unfolding read_PrimitiveSets_def by (intro fuel_intros assms)

lemma readArrayIfTrue_fuel [fuel_intros]:
  assumes "fuel_le ro ro'"
  shows "fuel_le (readArrayIfTrue ro) (readArrayIfTrue ro')"
  unfolding readArrayIfTrue_def by (intro fuel_intros assms)

lemma read_arrays_fuel [fuel_intros]:
  assumes "fuel_le ro ro'"
  shows "fuel_le (read_arrays ro ob) (read_arrays ro' ob)"
  unfolding read_arrays_def by (intro fuel_intros assms)

lemma readObjectFields_Geometry_fuel [fuel_intros]:
  assumes "fuel_le ro ro'"
  shows "fuel_le (readObjectFields_Geometry ro ob) (readObjectFields_Geometry ro' ob)"
  unfolding readObjectFields_Geometry_def by (intro fuel_intros assms)

lemma read_AttributeList_fuel [fuel_intros]:
  assumes "fuel_le ro ro'"
  shows "fuel_le (read_AttributeList ro n ats) (read_AttributeList ro' n ats)"
  unfolding read_AttributeList_def by (intro fuel_intros assms)

lemma readObjectFields_StateSet_fuel [fuel_intros]:
  assumes "fuel_le ro ro'"
  shows "fuel_le (readObjectFields_StateSet ro ob) (readObjectFields_StateSet ro' ob)"
  unfolding readObjectFields_StateSet_def by (intro fuel_intros assms)

lemma readObjectFields_StateAttribute_fuel [fuel_intros]:
  assumes "fuel_le ro ro'"
  shows "fuel_le (readObjectFields_StateAttribute ro ob) (readObjectFields_StateAttribute ro' ob)"
  unfolding readObjectFields_StateAttribute_def by (intro fuel_intros assms)

lemma readObjectFields_Texture2D_fuel [fuel_intros]:
  assumes "fuel_le ro ro'"
  shows "fuel_le (readObjectFields_Texture2D ro ob) (readObjectFields_Texture2D ro' ob)"
  unfolding readObjectFields_Texture2D_def by (intro fuel_intros assms)

lemma readObjectFields_DefaultUserDataContainer_fuel [fuel_intros]:
  assumes "fuel_le ro ro'"
  shows "fuel_le (readObjectFields_DefaultUserDataContainer ro ob) (readObjectFields_DefaultUserDataContainer ro' ob)"
  unfolding readObjectFields_DefaultUserDataContainer_def by (intro fuel_intros assms)

lemma readObjectData_PagedLOD_fuel [fuel_intros]:
  assumes "fuel_le ro ro'"
  shows "fuel_le (readObjectData_PagedLOD ro) (readObjectData_PagedLOD ro')"
  unfolding readObjectData_PagedLOD_def by (intro fuel_intros assms)

lemma readObjectData_Group_fuel [fuel_intros]:
  assumes "fuel_le ro ro'"
  shows "fuel_le (readObjectData_Group ro) (readObjectData_Group ro')"
  unfolding readObjectData_Group_def by (intro fuel_intros assms)

lemma readObjectData_Geode_fuel [fuel_intros]:
  assumes "fuel_le ro ro'"
  shows "fuel_le (readObjectData_Geode ro) (readObjectData_Geode ro')"
  unfolding readObjectData_Geode_def by (intro fuel_intros assms)

lemma readObjectData_Geometry_fuel [fuel_intros]:
  assumes "fuel_le ro ro'"
  shows "fuel_le (readObjectData_Geometry ro) (readObjectData_Geometry ro')"
  unfolding readObjectData_Geometry_def by (intro fuel_intros assms)

lemma readObjectData_DrawElementsUInt_fuel [fuel_intros]:
  assumes "fuel_le ro ro'"
  shows "fuel_le (readObjectData_DrawElementsUInt ro) (readObjectData_DrawElementsUInt ro')"
  unfolding readObjectData_DrawElementsUInt_def by (intro fuel_intros assms)

lemma readObjectData_StateSet_fuel [fuel_intros]:
  assumes "fuel_le ro ro'"
  shows "fuel_le (readObjectData_StateSet ro) (readObjectData_StateSet ro')"
  unfolding readObjectData_StateSet_def by (intro fuel_intros assms)

lemma readObjectData_Material_fuel [fuel_intros]:
  assumes "fuel_le ro ro'"
  shows "fuel_le (readObjectData_Material ro) (readObjectData_Material ro')"
  unfolding readObjectData_Material_def by (intro fuel_intros assms)

lemma readObjectData_Texture2D_fuel [fuel_intros]:
  assumes "fuel_le ro ro'"
  shows "fuel_le (readObjectData_Texture2D ro) (readObjectData_Texture2D ro')"
  unfolding readObjectData_Texture2D_def by (intro fuel_intros assms)

lemma readObjectData_DefaultUserDataContainer_fuel [fuel_intros]:
  assumes "fuel_le ro ro'"
  shows "fuel_le (readObjectData_DefaultUserDataContainer ro) (readObjectData_DefaultUserDataContainer ro')"
  unfolding readObjectData_DefaultUserDataContainer_def by (intro fuel_intros assms)

lemma readObjectData_Vec3Array_fuel [fuel_intros]:
  assumes "fuel_le ro ro'"
  shows "fuel_le (readObjectData_Vec3Array ro) (readObjectData_Vec3Array ro')"
  unfolding readObjectData_Vec3Array_def by (intro fuel_intros assms)

lemma readObjectData_Vec2Array_fuel [fuel_intros]:
  assumes "fuel_le ro ro'"
  shows "fuel_le (readObjectData_Vec2Array ro) (readObjectData_Vec2Array ro')"
  unfolding readObjectData_Vec2Array_def by (intro fuel_intros assms)

lemma dispatch_fuel [fuel_intros]:
  assumes "fuel_le ro ro'"
  shows "fuel_le (dispatch ro cn) (dispatch ro' cn)"
  unfolding dispatch_def by (intro fuel_intros assms)

lemma readObject_body_fuel:
  assumes "fuel_le ro ro'"
  shows "fuel_le (readObject_body ro) (readObject_body ro')"
  unfolding readObject_body_def by (intro fuel_intros assms)

lemma readObject_fuel_Suc: "fuel_le (readObject n) (readObject (Suc n))"
proof (induction n)
  case 0
  show ?case by (simp add: fuel_le_def)
next
  case (Suc n)
  then show ?case by (simp add: readObject_body_fuel)
qed

lemma readObject_fuel_mono: "n \<le> m \<Longrightarrow> fuel_le (readObject n) (readObject m)"
proof (induction m)
  case 0
  then show ?case by (simp add: fuel_le_refl)
next
  case (Suc m)
  show ?case
  proof (cases "n = Suc m")
    case True
    then show ?thesis by (simp add: fuel_le_refl)
  next
    case False
    with Suc.prems have "n \<le> m" by simp
    then have "fuel_le (readObject n) (readObject m)" by (rule Suc.IH)
    then show ?thesis by (rule fuel_le_trans) (rule readObject_fuel_Suc)
  qed
qed

subsection \<open>Every reader keeps the buffer and moves the cursor forward\<close>

lemma advances_ret [adv_intros]: "advances b q (ret x)"
  by (simp add: advances_def ret_def)

lemma advances_throw [adv_intros]: "advances b q (throw msg)"
  by (simp add: advances_def throw_def)

lemma advances_gets [adv_intros]: "advances b q (gets f)"
  by (simp add: advances_def gets_def)

lemma advances_modify [adv_intros]:
  assumes "\<And>r. buffer (f r) = buffer r \<and> pos r \<le> pos (f r)"
  shows "advances b q (modify f)"
  using assms by (simp add: advances_def modify_def)

lemma advances_bnd [adv_intros]:
  assumes f: "advances b q f" and g: "\<And>x. advances b q (g x)"
  shows "advances b q (bnd f g)"
  unfolding advances_def
proof (intro allI impI)
  fix r :: reader
  assume r: "buffer r = b \<and> q \<le> pos r"
  show "case bnd f g r of Inl e \<Rightarrow> e \<noteq> OutOfFuel
        | Inr (x, r') \<Rightarrow> buffer r' = b \<and> pos r \<le> pos r'"
  proof (cases "f r")
    case (Inl e)
    with f r show ?thesis by (auto simp: advances_def bnd_def)
  next
    case (Inr p)
    obtain x r1 where p: "p = (x, r1)" by (cases p)
    from f r Inr p have r1: "buffer r1 = b \<and> pos r \<le> pos r1"
      by (auto simp: advances_def)
    with r have "buffer r1 = b \<and> q \<le> pos r1" by simp
    with g [of x] have "case g x r1 of Inl e \<Rightarrow> e \<noteq> OutOfFuel
        | Inr (y, r') \<Rightarrow> buffer r' = b \<and> pos r1 \<le> pos r'"
      unfolding advances_def by blast
    with r1 show ?thesis
      by (auto simp: bnd_def Inr p split: sum.splits)
  qed
qed

lemma advances_thn [adv_intros]:
  "advances b q f \<Longrightarrow> advances b q g \<Longrightarrow> advances b q (thn f g)"
  unfolding thn_def by (intro adv_intros)

lemma advances_ignore [adv_intros]: "advances b q f \<Longrightarrow> advances b q (ignore f)"
  unfolding ignore_def by (intro adv_intros)

lemma advances_if [adv_intros]:
  "advances b q f \<Longrightarrow> advances b q g \<Longrightarrow> advances b q (if c then f else g)"
  by simp

lemma advances_if_then [adv_intros]: "advances b q f \<Longrightarrow> advances b q (if_then c f)"
  unfolding if_then_def by (intro adv_intros)

lemma advances_case_option [adv_intros]:
  "advances b q f \<Longrightarrow> (\<And>a. advances b q (g a)) \<Longrightarrow>
   advances b q (case x of None \<Rightarrow> f | Some a \<Rightarrow> g a)"
  by (cases x) simp_all

lemma advances_read_bytes [adv_intros]: "advances b q (read_bytes n)"
  by (simp add: advances_def read_bytes_def)

lemma advances_read_bool [adv_intros]: "advances b q read_bool"
  by (simp add: advances_def read_bool_def Let_def)

lemma advances_ReadBeginBracket [adv_intros]: "advances b q ReadBeginBracket"
  by (simp add: advances_def ReadBeginBracket_def)

lemma advances_ReadEndBracket [adv_intros]: "advances b q ReadEndBracket"
  unfolding ReadEndBracket_def by (intro adv_intros)

lemma advances_make_shared [adv_intros]: "advances b q (make_shared c)"
  by (simp add: advances_def make_shared_def)

lemma advances_update_obj [adv_intros]: "advances b q (update_obj a f)"
  unfolding update_obj_def by (intro adv_intros) simp

lemma advances_skip [adv_intros]: "advances b q (skip n)"
  unfolding skip_def by (intro adv_intros) simp

lemma advances_dynamic_pointer_cast [adv_intros]:
  "advances b q (dynamic_pointer_cast is_T p)"
  unfolding dynamic_pointer_cast_def by (intro adv_intros)

lemma advances_opt [adv_intros]: "advances b q f \<Longrightarrow> advances b q (opt f)"
  unfolding opt_def by (intro adv_intros)

lemma advances_opt_block [adv_intros]:
  "advances b q (f x) \<Longrightarrow> advances b q (opt_block f x)"
  unfolding opt_block_def by (intro adv_intros)

lemma advances_seq_Nil [adv_intros]: "advances b q (seq [])"
  by (simp add: advances_ret)

lemma advances_seq_Cons [adv_intros]:
  "advances b q f \<Longrightarrow> advances b q (seq fs) \<Longrightarrow> advances b q (seq (f # fs))"
  by (simp add: advances_thn)

lemma advances_chain_Nil [adv_intros]: "advances b q (chain [] x)"
  by (simp add: advances_ret)

lemma advances_chain_Cons [adv_intros]:
  "advances b q (f x) \<Longrightarrow> (\<And>y. advances b q (chain fs y)) \<Longrightarrow>
   advances b q (chain (f # fs) x)"
  by (simp add: advances_bnd)

lemma advances_for_from:
  "(\<And>i. advances b q (body i)) \<Longrightarrow> advances b q (for_from k i body)"
  by (induction k arbitrary: i) (simp_all add: advances_ret advances_thn)

lemma advances_for_loop [adv_intros]:
  "(\<And>i. advances b q (body i)) \<Longrightarrow> advances b q (for_loop n body)"
  unfolding for_loop_def by (rule advances_for_from)

lemma advances_for_acc_from:
  "(\<And>i x. advances b q (body i x)) \<Longrightarrow> advances b q (for_acc_from k i body x)"
  by (induction k arbitrary: i x) (simp_all add: advances_ret advances_bnd)

lemma advances_for_acc [adv_intros]:
  "(\<And>i x. advances b q (body i x)) \<Longrightarrow> advances b q (for_acc n body x)"
  unfolding for_acc_def by (rule advances_for_acc_from)

lemma advances_construct [adv_intros]:
  "(\<And>x. advances b q (chain layers x)) \<Longrightarrow> advances b q (construct c layers)"
  unfolding construct_def by (intro adv_intros)

lemma read_uint_advances [adv_intros]: "advances b q read_uint"
  unfolding read_uint_def by (intro adv_intros)

lemma read_int_advances [adv_intros]: "advances b q read_int"
  unfolding read_int_def by (intro adv_intros)

lemma read_longlong_advances [adv_intros]: "advances b q read_longlong"
  unfolding read_longlong_def by (intro adv_intros)

lemma read_float_advances [adv_intros]: "advances b q read_float"
  unfolding read_float_def by (intro adv_intros)

lemma read_double_advances [adv_intros]: "advances b q read_double"
  unfolding read_double_def by (intro adv_intros)

lemma read_Vec3d_advances [adv_intros]: "advances b q read_Vec3d"
  unfolding read_Vec3d_def by (intro adv_intros)

lemma read_Vec4f_advances [adv_intros]: "advances b q read_Vec4f"
  unfolding read_Vec4f_def by (intro adv_intros)

lemma read_string_advances [adv_intros]: "advances b q read_string"
  unfolding read_string_def by (intro adv_intros)

lemma readObjectIfTrue_advances [adv_intros]:
  assumes "advances b q ro"
  shows "advances b q (readObjectIfTrue ro)"
  unfolding readObjectIfTrue_def by (intro adv_intros assms) simp_all?

lemma readObjectFields_Object_advances [adv_intros]:
  assumes "advances b q ro"
  shows "advances b q (readObjectFields_Object ro ob)"
  unfolding readObjectFields_Object_def by (intro adv_intros assms) simp_all?

lemma readObjectFields_Node_advances [adv_intros]:
  assumes "advances b q ro"
  shows "advances b q (readObjectFields_Node ro ob)"
  unfolding readObjectFields_Node_def by (intro adv_intros assms) simp_all?

lemma read_Children_advances [adv_intros]:
  assumes "advances b q ro"
  shows "advances b q (read_Children ro ob)"
  unfolding read_Children_def by (intro adv_intros assms) simp_all?

lemma readObjectFields_Group_advances [adv_intros]:
  assumes "advances b q ro"
  shows "advances b q (readObjectFields_Group ro ob)"
  unfolding readObjectFields_Group_def by (intro adv_intros assms) simp_all?

lemma readObjectFields_LOD_advances [adv_intros]: "advances b q (readObjectFields_LOD ob)"
  unfolding readObjectFields_LOD_def by (intro adv_intros) simp_all?

lemma read_RangeDataList_advances [adv_intros]: "advances b q (read_RangeDataList ob)"
  unfolding read_RangeDataList_def by (intro adv_intros) simp_all?

lemma readObjectFields_PagedLOD_advances [adv_intros]:
  assumes "advances b q ro"
  shows "advances b q (readObjectFields_PagedLOD ro ob)"
  unfolding readObjectFields_PagedLOD_def by (intro adv_intros assms) simp_all?

lemma readObjectFields_Geode_advances [adv_intros]:
  assumes "advances b q ro"
  shows "advances b q (readObjectFields_Geode ro ob)"
  unfolding readObjectFields_Geode_def by (intro adv_intros assms) simp_all?

lemma readObjectFields_Drawable_advances [adv_intros]:
  assumes "advances b q ro"
  shows "advances b q (readObjectFields_Drawable ro ob)"
  unfolding readObjectFields_Drawable_def by (intro adv_intros assms) simp_all?

lemma readObjectFields_PrimitiveSet_advances [adv_intros]: "advances b q (readObjectFields_PrimitiveSet ob)"
  unfolding readObjectFields_PrimitiveSet_def by (intro adv_intros) simp_all?

lemma readObjectFields_DrawElementsUInt_advances [adv_intros]: "advances b q (readObjectFields_DrawElementsUInt ob)"
  unfolding readObjectFields_DrawElementsUInt_def by (intro adv_intros) simp_all?

lemma ReadArray_payload_advances [adv_intros]: "advances b q (ReadArray_payload arr)"
  unfolding ReadArray_payload_def by (intro adv_intros) simp_all?

lemma ReadArray_advances [adv_intros]: "advances b q ReadArray"
  unfolding ReadArray_def by (intro adv_intros) simp_all?

lemma readImage_payload_advances [adv_intros]:
  assumes "advances b q ro"
  shows "advances b q (readImage_payload ro img)"
  unfolding readImage_payload_def by (intro adv_intros assms) simp_all?

lemma readImage_advances [adv_intros]:
  assumes "advances b q ro"
  shows "advances b q (readImage ro)"
  unfolding readImage_def by (intro adv_intros assms) simp_all?

lemma read_PrimitiveSets_legacy_advances [adv_intros]: "advances b q (read_PrimitiveSets_legacy n ob)"
  unfolding read_PrimitiveSets_legacy_def by (intro adv_intros) simp_all?

lemma read_PrimitiveSets_advances [adv_intros]:
  assumes "advances b q ro"
  shows "advances b q (read_PrimitiveSets ro n ob)"
  unfolding read_PrimitiveSets_def by (intro adv_intros assms) simp_all?

lemma read_discarded_array_advances [adv_intros]: "advances b q read_discarded_array"
  unfolding read_discarded_array_def by (intro adv_intros) simp_all?

lemma read_arrays_legacy_advances [adv_intros]: "advances b q (read_arrays_legacy ob)"
  unfolding read_arrays_legacy_def by (intro adv_intros) simp_all?

lemma readArrayIfTrue_advances [adv_intros]:
  assumes "advances b q ro"
  shows "advances b q (readArrayIfTrue ro)"
  unfolding readArrayIfTrue_def by (intro adv_intros assms) simp_all?

lemma read_arrays_advances [adv_intros]:
  assumes "advances b q ro"
  shows "advances b q (read_arrays ro ob)"
  unfolding read_arrays_def by (intro adv_intros assms) simp_all?

lemma readObjectFields_Geometry_advances [adv_intros]:
  assumes "advances b q ro"
  shows "advances b q (readObjectFields_Geometry ro ob)"
  unfolding readObjectFields_Geometry_def by (intro adv_intros assms) simp_all?

lemma read_ModeList_advances [adv_intros]: "advances b q (read_ModeList n ms)"
  unfolding read_ModeList_def by (intro adv_intros) simp_all?

lemma read_AttributeList_advances [adv_intros]:
  assumes "advances b q ro"
  shows "advances b q (read_AttributeList ro n ats)"
  unfolding read_AttributeList_def by (intro adv_intros assms) simp_all?

lemma readObjectFields_StateSet_advances [adv_intros]:
  assumes "advances b q ro"
  shows "advances b q (readObjectFields_StateSet ro ob)"
  unfolding readObjectFields_StateSet_def by (intro adv_intros assms) simp_all?

lemma readObjectFields_StateAttribute_advances [adv_intros]:
  assumes "advances b q ro"
  shows "advances b q (readObjectFields_StateAttribute ro ob)"
  unfolding readObjectFields_StateAttribute_def by (intro adv_intros assms) simp_all?

lemma read_Property_Vec4f_advances [adv_intros]: "advances b q read_Property_Vec4f"
  unfolding read_Property_Vec4f_def by (intro adv_intros) simp_all?

lemma read_Property_float_advances [adv_intros]: "advances b q read_Property_float"
  unfolding read_Property_float_def by (intro adv_intros) simp_all?

lemma readObjectFields_Material_advances [adv_intros]: "advances b q (readObjectFields_Material ob)"
  unfolding readObjectFields_Material_def by (intro adv_intros) simp_all?

lemma readObjectFields_Texture_advances [adv_intros]: "advances b q (readObjectFields_Texture ob)"
  unfolding readObjectFields_Texture_def by (intro adv_intros) simp_all?

lemma readObjectFields_Texture2D_advances [adv_intros]:
  assumes "advances b q ro"
  shows "advances b q (readObjectFields_Texture2D ro ob)"
  unfolding readObjectFields_Texture2D_def by (intro adv_intros assms) simp_all?

lemma readObjectFields_DefaultUserDataContainer_advances [adv_intros]:
  assumes "advances b q ro"
  shows "advances b q (readObjectFields_DefaultUserDataContainer ro ob)"
  unfolding readObjectFields_DefaultUserDataContainer_def by (intro adv_intros assms) simp_all?

lemma readObjectFields_Array_advances [adv_intros]: "advances b q (readObjectFields_Array ob)"
  unfolding readObjectFields_Array_def by (intro adv_intros) simp_all?

lemma readObjectFields_Vec2Array_advances [adv_intros]: "advances b q (readObjectFields_Vec2Array ob)"
  unfolding readObjectFields_Vec2Array_def by (intro adv_intros) simp_all?

lemma readObjectFields_Vec3Array_advances [adv_intros]: "advances b q (readObjectFields_Vec3Array ob)"
  unfolding readObjectFields_Vec3Array_def by (intro adv_intros) simp_all?

lemma readObjectData_PagedLOD_advances [adv_intros]:
  assumes "advances b q ro"
  shows "advances b q (readObjectData_PagedLOD ro)"
  unfolding readObjectData_PagedLOD_def by (intro adv_intros assms) simp_all?

lemma readObjectData_Group_advances [adv_intros]:
  assumes "advances b q ro"
  shows "advances b q (readObjectData_Group ro)"
  unfolding readObjectData_Group_def by (intro adv_intros assms) simp_all?

lemma readObjectData_Geode_advances [adv_intros]:
  assumes "advances b q ro"
  shows "advances b q (readObjectData_Geode ro)"
  unfolding readObjectData_Geode_def by (intro adv_intros assms) simp_all?

lemma readObjectData_Geometry_advances [adv_intros]:
  assumes "advances b q ro"
  shows "advances b q (readObjectData_Geometry ro)"
  unfolding readObjectData_Geometry_def by (intro adv_intros assms) simp_all?

lemma readObjectData_DrawElementsUInt_advances [adv_intros]:
  assumes "advances b q ro"
  shows "advances b q (readObjectData_DrawElementsUInt ro)"
  unfolding readObjectData_DrawElementsUInt_def by (intro adv_intros assms) simp_all?

lemma readObjectData_StateSet_advances [adv_intros]:
  assumes "advances b q ro"
  shows "advances b q (readObjectData_StateSet ro)"
  unfolding readObjectData_StateSet_def by (intro adv_intros assms) simp_all?

lemma readObjectData_Material_advances [adv_intros]:
  assumes "advances b q ro"
  shows "advances b q (readObjectData_Material ro)"
  unfolding readObjectData_Material_def by (intro adv_intros assms) simp_all?

lemma readObjectData_Texture2D_advances [adv_intros]:
  assumes "advances b q ro"
  shows "advances b q (readObjectData_Texture2D ro)"
  unfolding readObjectData_Texture2D_def by (intro adv_intros assms) simp_all?

lemma readObjectData_DefaultUserDataContainer_advances [adv_intros]:
  assumes "advances b q ro"
  shows "advances b q (readObjectData_DefaultUserDataContainer ro)"
  unfolding readObjectData_DefaultUserDataContainer_def by (intro adv_intros assms) simp_all?

lemma readObjectData_Vec3Array_advances [adv_intros]:
  assumes "advances b q ro"
  shows "advances b q (readObjectData_Vec3Array ro)"
  unfolding readObjectData_Vec3Array_def by (intro adv_intros assms) simp_all?

lemma readObjectData_Vec2Array_advances [adv_intros]:
  assumes "advances b q ro"
  shows "advances b q (readObjectData_Vec2Array ro)"
  unfolding readObjectData_Vec2Array_def by (intro adv_intros assms) simp_all?

lemma dispatch_advances [adv_intros]:
  assumes "advances b q ro"
  shows "advances b q (dispatch ro cn)"
  unfolding dispatch_def by (intro adv_intros assms) simp_all?

lemma register_object_advances [adv_intros]: "advances b q (register_object uid object)"
  unfolding register_object_def by (intro adv_intros) simp_all?

lemma readHeader_advances [adv_intros]: "advances b q readHeader"
  unfolding readHeader_def by (intro adv_intros) simp_all?

subsection \<open>A bound above the buffer length is never exhausted\<close>

text \<open>
  \<open>readObject\<close> reads the four bytes of the class name's length before anything else, so a
  call with fewer than four bytes left fails at once, and each level of nesting starts at
  least four bytes further than the level above it.
\<close>

lemma advances_weaken: "advances b q f \<Longrightarrow> q \<le> q' \<Longrightarrow> advances b q' f"
  by (auto simp: advances_def)

lemma read_string_progress:
  "case read_string r of Inl e \<Rightarrow> e \<noteq> OutOfFuel
   | Inr (x, r') \<Rightarrow> buffer r' = buffer r \<and> pos r + 4 \<le> pos r'"
  by (simp add: read_string_def read_int_def read_bytes_def bnd_def ret_def throw_def)

lemma advancesD:
  "advances b q f \<Longrightarrow> buffer r = b \<Longrightarrow> q \<le> pos r \<Longrightarrow>
   (case f r of Inl e \<Rightarrow> e \<noteq> OutOfFuel
    | Inr (x, r') \<Rightarrow> buffer r' = b \<and> pos r \<le> pos r')"
  by (simp add: advances_def)

lemma advances_bnd_shift:
  assumes f: "\<And>r. case f r of Inl e \<Rightarrow> e \<noteq> OutOfFuel
                | Inr (x, r') \<Rightarrow> buffer r' = buffer r \<and> pos r + k \<le> pos r'"
    and g: "\<And>x. advances b q (g x)"
  shows "advances b (q - k) (bnd f g)"
  unfolding advances_def
proof (intro allI impI)
  fix r :: reader
  assume r: "buffer r = b \<and> q - k \<le> pos r"
  show "case bnd f g r of Inl e \<Rightarrow> e \<noteq> OutOfFuel
        | Inr (x, r') \<Rightarrow> buffer r' = b \<and> pos r \<le> pos r'"
  proof (cases "f r")
    case (Inl e)
    with f [of r] show ?thesis by (simp add: bnd_def)
  next
    case (Inr p)
    obtain x r1 where p: "p = (x, r1)" by (cases p)
    from f [of r] Inr p have r1: "buffer r1 = buffer r" "pos r + k \<le> pos r1" by simp_all
    with r have "buffer r1 = b" "q \<le> pos r1" by auto
    from advancesD [OF g this]
    have "case g x r1 of Inl e \<Rightarrow> e \<noteq> OutOfFuel
          | Inr (y, r') \<Rightarrow> buffer r' = b \<and> pos r1 \<le> pos r'" .
    moreover have "bnd f g r = g x r1" by (simp add: bnd_def Inr p)
    moreover from r1 have "pos r \<le> pos r1" by simp
    ultimately show ?thesis by (cases "g x r1") auto
  qed
qed

lemma advances_bnd_fail:
  assumes "\<And>r. buffer r = b \<Longrightarrow> q \<le> pos r \<Longrightarrow> \<exists>e. f r = Inl e \<and> e \<noteq> OutOfFuel"
  shows "advances b q (bnd f g)"
  unfolding advances_def
proof (intro allI impI)
  fix r :: reader
  assume "buffer r = b \<and> q \<le> pos r"
  with assms [of r] obtain e where "f r = Inl e" "e \<noteq> OutOfFuel" by auto
  then show "case bnd f g r of Inl e \<Rightarrow> e \<noteq> OutOfFuel
        | Inr (x, r') \<Rightarrow> buffer r' = b \<and> pos r \<le> pos r'"
    by (simp add: bnd_def)
qed

lemma read_string_short:
  assumes "length (buffer r) - 3 \<le> pos r"
  shows "\<exists>e. read_string r = Inl e \<and> e \<noteq> OutOfFuel"
proof -
  from assms have "length (buffer r) < pos r + 4" by arith
  then show ?thesis
    by (simp add: read_string_def read_int_def read_bytes_def bnd_def)
qed

lemma readObject_body_advances:
  assumes "advances b q ro"
  shows "advances b (q - 4) (readObject_body ro)"
  unfolding readObject_body_def
  by (rule advances_bnd_shift [OF read_string_progress]) (intro adv_intros assms)

lemma readObject_body_short: "advances b (length b - 3) (readObject_body ro)"
  unfolding readObject_body_def
proof (rule advances_bnd_fail)
  fix r :: reader
  assume "buffer r = b" and "length b - 3 \<le> pos r"
  then show "\<exists>e. read_string r = Inl e \<and> e \<noteq> OutOfFuel"
    by (intro read_string_short) simp
qed

lemma readObject_advances: "advances b (length b - 3 - 4 * n) (readObject (Suc n))"
proof (induction n)
  case 0
  show ?case by (simp add: readObject_body_short)
next
  case (Suc n)
  have "advances b (length b - 3 - 4 * n - 4) (readObject_body (readObject (Suc n)))"
    using Suc by (rule readObject_body_advances)
  then have "advances b (length b - 3 - 4 * n - 4) (readObject (Suc (Suc n)))"
    by (simp del: readObject.simps add: readObject.simps(2) [of "Suc n"])
  then show ?case by (rule advances_weaken) simp
qed

lemma readObject_total: "length b \<le> n \<Longrightarrow> advances b 0 (readObject (Suc n))"
  using readObject_advances [of b n] by simp

lemma parse_advances:
  "length b \<le> n \<Longrightarrow> advances b 0 (thn readHeader (readObject (Suc n)))"
  by (intro adv_intros readObject_total)

lemma parse_no_OutOfFuel:
  assumes "length buf < n"
  shows "thn readHeader (readObject n) (new_Reader buf) \<noteq> Inl OutOfFuel"
proof -
  from assms obtain k where n: "n = Suc k" and k: "length buf \<le> k"
    by (cases n) auto
  have "buffer (new_Reader buf) = buf" "0 \<le> pos (new_Reader buf)"
    by (simp_all add: new_Reader_def)
  from advancesD [OF parse_advances [OF k] this] show ?thesis
    unfolding n by (cases "thn readHeader (readObject (Suc k)) (new_Reader buf)") auto
qed

lemma parse_fuel_independent:
  assumes "length buf < n" and "n \<le> m"
  shows "thn readHeader (readObject m) (new_Reader buf)
       = thn readHeader (readObject n) (new_Reader buf)"
proof -
  have "fuel_le (thn readHeader (readObject n)) (thn readHeader (readObject m))"
    by (intro fuel_intros readObject_fuel_mono assms)
  with parse_no_OutOfFuel [OF assms(1)] show ?thesis
    by (auto simp: fuel_le_def)
qed

lemma Data_read_fuel_OutOfFuel:
  "Data_read_fuel n buf = Inl OutOfFuel \<longleftrightarrow>
   thn readHeader (readObject n) (new_Reader buf) = Inl OutOfFuel"
  by (auto simp: Data_read_fuel_def split: sum.splits)

text \<open>
  Every bound above the buffer length gives the outcome of \<open>Data_read\<close>, and that outcome
  is never the exhausted bound.
\<close>

theorem Data_read_fuel_sufficient:
  "length buf < n \<longrightarrow>
     Data_read_fuel n buf = Data_read buf \<and> Data_read buf \<noteq> Inl OutOfFuel"
proof
  assume n: "length buf < n"
  have "thn readHeader (readObject n) (new_Reader buf)
      = thn readHeader (readObject (Suc (length buf))) (new_Reader buf)"
    using n by (intro parse_fuel_independent) simp_all
  then have "Data_read_fuel n buf = Data_read buf"
    by (simp add: Data_read_def Data_read_fuel_def)
  moreover have "Data_read buf \<noteq> Inl OutOfFuel"
    unfolding Data_read_def Data_read_fuel_OutOfFuel
    by (rule parse_no_OutOfFuel) simp
  ultimately show "Data_read_fuel n buf = Data_read buf \<and> Data_read buf \<noteq> Inl OutOfFuel"
    by simp
qed

end
